theory Spec2Isabelle
  imports Main
begin

section \<open>The credential store (src/config.js)\<close>

text \<open>
  The store is a \<^verbatim>\<open>Conf\<close> object with a fixed schema: five string fields and one number
  field. \<^verbatim>\<open>tokenExpiry\<close> is an epoch timestamp in milliseconds, an integer.
\<close>

record config =
  clientId :: string
  clientSecret :: string
  accessToken :: string
  refreshToken :: string
  tokenExpiry :: int
  tenantId :: string

text \<open>The schema's defaults: what a store holds before anything was written.\<close>

definition default_config :: config where
  "default_config =
     \<lparr>clientId = [], clientSecret = [], accessToken = [], refreshToken = [],
      tokenExpiry = 0, tenantId = []\<rparr>"

text \<open>
  \<^verbatim>\<open>isConfigured\<close>: \<^verbatim>\<open>!!(clientId && clientSecret)\<close>; a string is truthy when it is
  not empty.
\<close>

definition isConfigured :: "config \<Rightarrow> bool" where
  "isConfigured c = (clientId c \<noteq> [] \<and> clientSecret c \<noteq> [])"

text \<open>
  \<^verbatim>\<open>hasValidToken\<close> reads the store and \<^verbatim>\<open>Date.now()\<close>; the reading of the clock is the
  second argument.
\<close>

definition hasValidToken :: "config \<Rightarrow> int \<Rightarrow> bool" where
  "hasValidToken c now =
     (if accessToken c = [] then False else tokenExpiry c > now + 60000)"

section \<open>JavaScript values\<close>

text \<open>
  JSON documents, as \<^verbatim>\<open>axios\<close> hands them over in \<^verbatim>\<open>response.data\<close> and takes them as
  request payloads and query parameters. Numbers are the integers; an object lists its
  members in order.
\<close>

datatype json =
    JNull
  | JBool bool
  | JNum int
  | JStr string
  | JArr "json list"
  | JObj "(string \<times> json) list"

text \<open>What \<^verbatim>\<open>if (v)\<close> and \<^verbatim>\<open>v || w\<close> test.\<close>

fun truthy :: "json \<Rightarrow> bool" where
  "truthy JNull = False"
| "truthy (JBool b) = b"
| "truthy (JNum n) = (n \<noteq> 0)"
| "truthy (JStr s) = (s \<noteq> [])"
| "truthy (JArr xs) = True"
| "truthy (JObj kvs) = True"

text \<open>
  A value that may be \<^verbatim>\<open>undefined\<close> or \<^verbatim>\<open>null\<close> is an option; an optional string is
  truthy when it is there and not empty.
\<close>

definition present :: "string option \<Rightarrow> bool" where
  "present v = (case v of None \<Rightarrow> False | Some s \<Rightarrow> s \<noteq> [])"

text \<open>\<^verbatim>\<open>v || d\<close> on an optional string \<open>v\<close> and a string \<open>d\<close>.\<close>

definition or_else :: "string option \<Rightarrow> string \<Rightarrow> string" where
  "or_else v d = (case v of None \<Rightarrow> d | Some s \<Rightarrow> if s \<noteq> [] then s else d)"

text \<open>A number that \<^verbatim>\<open>parseInt\<close> returns: an integer or \<^verbatim>\<open>NaN\<close>.\<close>

datatype jsnum = Num int | NaN

text \<open>Decimal digits of a natural number, as a template literal prints it.\<close>

definition digit_char :: "nat \<Rightarrow> char" where
  "digit_char d = ''0123456789'' ! d"

fun show_nat :: "nat \<Rightarrow> string" where
  "show_nat n =
     (if n < 10 then [digit_char n]
      else show_nat (n div 10) @ [digit_char (n mod 10)])"

declare show_nat.simps [simp del]

section \<open>Errors\<close>

text \<open>
  The body of a failed response, \<^verbatim>\<open>error.response.data\<close>: the members the code reads,
  each a string when it is there, and \<open>raw\<close>, the text \<^verbatim>\<open>JSON.stringify\<close> gives for the
  whole body.
\<close>

record error_body =
  error_description :: "string option"
  Detail :: "string option"
  Message :: "string option"
  message :: "string option"
  raw :: string

text \<open>
  What \<^verbatim>\<open>axios\<close> rejects with: a response with a status outside 2xx
  (\<^verbatim>\<open>error.response\<close>), a request that got no response (\<^verbatim>\<open>error.request\<close> only), or a
  failure before the request was sent. Each carries \<^verbatim>\<open>error.message\<close>.
\<close>

datatype axios_error =
    HttpError nat error_body string
  | NoResponse string
  | SetupError string

fun axios_message :: "axios_error \<Rightarrow> string" where
  "axios_message (HttpError st b m) = m"
| "axios_message (NoResponse m) = m"
| "axios_message (SetupError m) = m"

text \<open>
  What the code throws: \<^verbatim>\<open>new Error(msg)\<close> everywhere, the \<^verbatim>\<open>TypeError\<close> of the
  runtime, or an \<^verbatim>\<open>axios\<close> error thrown again as it is.
\<close>

datatype error = Error string | TypeError string | AxiosError axios_error

fun error_message :: "error \<Rightarrow> string" where
  "error_message (Error m) = m"
| "error_message (TypeError m) = m"
| "error_message (AxiosError e) = axios_message e"

text \<open>
  The member \<open>k\<close> of a value, \<^verbatim>\<open>data.k\<close>: reading a member of \<^verbatim>\<open>null\<close> throws a
  \<^verbatim>\<open>TypeError\<close>, a missing member is \<^verbatim>\<open>undefined\<close>, and of a member written twice the
  last one counts.
\<close>

fun member_of :: "json \<Rightarrow> string \<Rightarrow> error + json option" where
  "member_of JNull k = Inl (TypeError ''Cannot read properties of null'')"
| "member_of (JObj kvs) k = Inr (map_of (rev kvs) k)"
| "member_of v k = Inr None"

text \<open>\<^verbatim>\<open>v || []\<close>, \<^verbatim>\<open>v[0]\<close> on a truthy value, and \<^verbatim>\<open>v || null\<close>.\<close>

definition or_empty :: "json option \<Rightarrow> json" where
  "or_empty v = (case v of None \<Rightarrow> JArr [] | Some j \<Rightarrow> if truthy j then j else JArr [])"

fun index0 :: "json \<Rightarrow> json option" where
  "index0 (JArr (x # xs)) = Some x"
| "index0 (JStr (c # cs)) = Some (JStr [c])"
| "index0 (JObj kvs) = map_of (rev kvs) ''0''"
| "index0 v = None"

definition or_null :: "json option \<Rightarrow> json" where
  "or_null v = (case v of None \<Rightarrow> JNull | Some j \<Rightarrow> if truthy j then j else JNull)"

section \<open>The network and the clock\<close>

text \<open>
  The form body of a POST to the identity endpoint: \<^verbatim>\<open>grant_type=refresh_token\<close> with
  the refresh token, or \<^verbatim>\<open>grant_type=authorization_code\<close> with the code and the redirect
  URI.
\<close>

datatype grant =
    refresh_token_grant string
  | authorization_code_grant string string

text \<open>The \<^verbatim>\<open>axios\<close> configuration \<^verbatim>\<open>apiRequest\<close> builds.\<close>

record api_config =
  http_method :: string
  url :: string
  bearer :: string
  xero_tenant_id :: string
  params :: "(string \<times> json) list option"
  data :: "json option"

text \<open>
  A request that leaves the process. \<open>TokenPost cred g\<close> goes to \<^verbatim>\<open>XERO_AUTH_URL\<close> with
  \<^verbatim>\<open>Authorization: Basic base64(cred)\<close>; \<open>ConnectionsGet t\<close> goes to
  \<^verbatim>\<open>XERO_CONNECTIONS_URL\<close> with \<^verbatim>\<open>Authorization: Bearer t\<close>.
\<close>

datatype request =
    TokenPost string grant
  | ConnectionsGet string
  | ApiCall api_config

text \<open>
  The members of a 2xx answer of the identity endpoint that the code reads, each as the
  JSON value it is, or \<open>None\<close> when the answer has no such member (\<^verbatim>\<open>undefined\<close>).
\<close>

record token_response =
  access_token :: "json option"
  refresh_token :: "json option"
  expires_in :: "json option"

record connection =
  conn_tenantId :: string
  conn_tenantName :: string

text \<open>Why the store refuses a value: it is \<^verbatim>\<open>undefined\<close>, or not of the schema's type.\<close>

datatype refusal = Undefined_value | Schema_violation

text \<open>
  The surroundings of a run. The servers: to each request, what \<^verbatim>\<open>axios\<close> settles with and
  the milliseconds that pass until then. The runtime: the number it makes of a string,
  an array or an object. The store library: the message of the error it throws when it
  refuses to write a key.
\<close>

record env =
  identity :: "string \<Rightarrow> grant \<Rightarrow> (axios_error + token_response) \<times> nat"
  connections :: "string \<Rightarrow> (axios_error + connection list) \<times> nat"
  resources :: "api_config \<Rightarrow> (axios_error + json) \<times> nat"
  coerce_number :: "json \<Rightarrow> jsnum"
  refusal_text :: "string \<Rightarrow> refusal \<Rightarrow> string"

text \<open>
  The state of a run: the store, the clock \<^verbatim>\<open>Date.now()\<close> reads, and the requests sent
  so far, oldest first.
\<close>

record world =
  store :: config
  clock :: int
  net_log :: "request list"

definition sent :: "request \<Rightarrow> nat \<Rightarrow> world \<Rightarrow> world" where
  "sent req dt w = w\<lparr>clock := clock w + int dt, net_log := net_log w @ [req]\<rparr>"

definition XERO_BASE_URL :: string where
  "XERO_BASE_URL = ''https://api.xero.com/api.xro/2.0''"

section \<open>Writing the store\<close>

text \<open>
  \<^verbatim>\<open>setConfig(key, value)\<close> on a key whose schema type is \<^verbatim>\<open>string\<close>: the store throws on
  \<^verbatim>\<open>undefined\<close> and on a value that is not a string, and replaces the field otherwise. The
  result is the message thrown, or the store written.
\<close>

definition setConfig_string ::
  "env \<Rightarrow> string \<Rightarrow> (string \<Rightarrow> config \<Rightarrow> config) \<Rightarrow> json option \<Rightarrow> config
   \<Rightarrow> string + config" where
  "setConfig_string ev key put v c =
     (case v of
        None \<Rightarrow> Inl (refusal_text ev key Undefined_value)
      | Some (JStr s) \<Rightarrow> Inr (put s c)
      | Some other \<Rightarrow> Inl (refusal_text ev key Schema_violation))"

text \<open>The same on a key whose schema type is \<^verbatim>\<open>number\<close>: \<^verbatim>\<open>NaN\<close> is refused.\<close>

definition setConfig_number ::
  "env \<Rightarrow> string \<Rightarrow> (int \<Rightarrow> config \<Rightarrow> config) \<Rightarrow> jsnum \<Rightarrow> config \<Rightarrow> string + config" where
  "setConfig_number ev key put v c =
     (case v of
        Num n \<Rightarrow> Inr (put n c)
      | NaN \<Rightarrow> Inl (refusal_text ev key Schema_violation))"

text \<open>
  The number a value stands for in arithmetic: \<^verbatim>\<open>undefined\<close> is \<^verbatim>\<open>NaN\<close>, \<^verbatim>\<open>null\<close> is 0,
  \<^verbatim>\<open>true\<close> is 1; for strings, arrays and objects the runtime decides.
\<close>

fun to_number :: "env \<Rightarrow> json option \<Rightarrow> jsnum" where
  "to_number ev None = NaN"
| "to_number ev (Some JNull) = Num 0"
| "to_number ev (Some (JBool b)) = Num (if b then 1 else 0)"
| "to_number ev (Some (JNum n)) = Num n"
| "to_number ev (Some v) = coerce_number ev v"

fun js_times :: "jsnum \<Rightarrow> jsnum \<Rightarrow> jsnum" where
  "js_times (Num a) (Num b) = Num (a * b)"
| "js_times a b = NaN"

fun js_plus :: "jsnum \<Rightarrow> jsnum \<Rightarrow> jsnum" where
  "js_plus (Num a) (Num b) = Num (a + b)"
| "js_plus a b = NaN"

text \<open>\<^verbatim>\<open>Date.now() + (expires_in * 1000)\<close>, the clock reading \<open>now\<close>.\<close>

definition expiry :: "env \<Rightarrow> int \<Rightarrow> json option \<Rightarrow> jsnum" where
  "expiry ev now e = js_plus (Num now) (js_times (to_number ev e) (Num 1000))"

text \<open>\<^verbatim>\<open>if (v)\<close> on a member that may be missing.\<close>

definition truthy_member :: "json option \<Rightarrow> bool" where
  "truthy_member v = (case v of None \<Rightarrow> False | Some j \<Rightarrow> truthy j)"

text \<open>The string a member is, once the store has taken it as one.\<close>

fun string_member :: "json option \<Rightarrow> string" where
  "string_member (Some (JStr s)) = s"
| "string_member v = []"

text \<open>
  The three writes of \<^verbatim>\<open>refreshAccessToken\<close> (api.js 34-36) and of
  \<^verbatim>\<open>exchangeCodeForTokens\<close> (api.js 83-85), in order. A refused write throws: the result
  is its message, if any, and the store as the writes before it left it.
\<close>

definition store_refreshed ::
  "env \<Rightarrow> int \<Rightarrow> token_response \<Rightarrow> config \<Rightarrow> string option \<times> config" where
  "store_refreshed ev now resp c =
     (case setConfig_string ev ''accessToken'' (\<lambda>s c. c\<lparr>accessToken := s\<rparr>)
             (access_token resp) c of
        Inl m \<Rightarrow> (Some m, c)
      | Inr c1 \<Rightarrow>
          (case (if truthy_member (refresh_token resp)
                 then setConfig_string ev ''refreshToken'' (\<lambda>s c. c\<lparr>refreshToken := s\<rparr>)
                        (refresh_token resp) c1
                 else Inr c1) of
             Inl m \<Rightarrow> (Some m, c1)
           | Inr c2 \<Rightarrow>
               (case setConfig_number ev ''tokenExpiry'' (\<lambda>n c. c\<lparr>tokenExpiry := n\<rparr>)
                       (expiry ev now (expires_in resp)) c2 of
                  Inl m \<Rightarrow> (Some m, c2)
                | Inr c3 \<Rightarrow> (None, c3))))"

definition store_exchanged ::
  "env \<Rightarrow> int \<Rightarrow> token_response \<Rightarrow> config \<Rightarrow> string option \<times> config" where
  "store_exchanged ev now resp c =
     (case setConfig_string ev ''accessToken'' (\<lambda>s c. c\<lparr>accessToken := s\<rparr>)
             (access_token resp) c of
        Inl m \<Rightarrow> (Some m, c)
      | Inr c1 \<Rightarrow>
          (case setConfig_string ev ''refreshToken'' (\<lambda>s c. c\<lparr>refreshToken := s\<rparr>)
                  (refresh_token resp) c1 of
             Inl m \<Rightarrow> (Some m, c1)
           | Inr c2 \<Rightarrow>
               (case setConfig_number ev ''tokenExpiry'' (\<lambda>n c. c\<lparr>tokenExpiry := n\<rparr>)
                       (expiry ev now (expires_in resp)) c2 of
                  Inl m \<Rightarrow> (Some m, c2)
                | Inr c3 \<Rightarrow> (None, c3))))"

section \<open>Token exchange (src/api.js)\<close>

text \<open>
  The message of a failed exchange:
  \<^verbatim>\<open>error.response?.data?.error_description || error.message\<close>.
\<close>

fun exchange_failure_msg :: "axios_error \<Rightarrow> string" where
  "exchange_failure_msg (HttpError st b m) = or_else (error_description b) m"
| "exchange_failure_msg (NoResponse m) = m"
| "exchange_failure_msg (SetupError m) = m"

text \<open>
  \<^verbatim>\<open>refreshAccessToken\<close>. The writes are inside the \<^verbatim>\<open>try\<close>: a write the store refuses is
  caught and thrown again like a failed request, with the writes before it done. The
  clock is read for the expiry after the reply came.
\<close>

definition refreshAccessToken :: "env \<Rightarrow> world \<Rightarrow> (error + string) \<times> world" where
  "refreshAccessToken ev w =
     (let c = store w in
      if refreshToken c = [] then
        (Inl (Error ''No refresh token available. Please run: xero auth login''), w)
      else
        let credentials = clientId c @ '':'' @ clientSecret c;
            g = refresh_token_grant (refreshToken c);
            (r, dt) = identity ev credentials g;
            w1 = sent (TokenPost credentials g) dt w
        in (case r of
              Inl e \<Rightarrow> (Inl (Error (''Token refresh failed: '' @ exchange_failure_msg e)), w1)
            | Inr resp \<Rightarrow>
                (case store_refreshed ev (clock w1) resp (store w1) of
                   (Some m, c') \<Rightarrow>
                     (Inl (Error (''Token refresh failed: '' @ m)), w1\<lparr>store := c'\<rparr>)
                 | (None, c') \<Rightarrow>
                     (Inr (string_member (access_token resp)), w1\<lparr>store := c'\<rparr>))))"

definition getAccessToken :: "env \<Rightarrow> world \<Rightarrow> (error + string) \<times> world" where
  "getAccessToken ev w =
     (if hasValidToken (store w) (clock w) then (Inr (accessToken (store w)), w)
      else refreshAccessToken ev w)"

text \<open>
  \<^verbatim>\<open>exchangeCodeForTokens\<close>. It writes \<^verbatim>\<open>refresh_token\<close> whatever it is, and returns the
  answer as it came.
\<close>

definition exchangeCodeForTokens ::
  "env \<Rightarrow> string \<Rightarrow> string \<Rightarrow> world \<Rightarrow> (error + token_response) \<times> world" where
  "exchangeCodeForTokens ev code redirectUri w =
     (let c = store w in
      if clientId c = [] \<or> clientSecret c = [] then
        (Inl (Error ''Client ID and secret not configured. Run: xero config set --client-id <id> --client-secret <secret>''), w)
      else
        let credentials = clientId c @ '':'' @ clientSecret c;
            g = authorization_code_grant code redirectUri;
            (r, dt) = identity ev credentials g;
            w1 = sent (TokenPost credentials g) dt w
        in (case r of
              Inl e \<Rightarrow> (Inl (Error (''Token exchange failed: '' @ exchange_failure_msg e)), w1)
            | Inr resp \<Rightarrow>
                (case store_exchanged ev (clock w1) resp (store w1) of
                   (Some m, c') \<Rightarrow>
                     (Inl (Error (''Token exchange failed: '' @ m)), w1\<lparr>store := c'\<rparr>)
                 | (None, c') \<Rightarrow> (Inr resp, w1\<lparr>store := c'\<rparr>))))"

section \<open>Authorized requests (src/api.js)\<close>

text \<open>\<^verbatim>\<open>handleApiError\<close> throws on every path; its value here is what it throws.\<close>

fun handleApiError :: "axios_error \<Rightarrow> error" where
  "handleApiError (HttpError status d m) =
     (if status = 401 then
        Error ''Authentication failed. Your token may have expired. Run: xero auth login''
      else if status = 403 then Error ''Access forbidden. Check your API permissions.''
      else if status = 404 then Error ''Resource not found.''
      else if status = 429 then Error ''Rate limit exceeded. Please wait before retrying.''
      else
        Error (''API Error ('' @ show_nat status @ ''): ''
               @ or_else (Detail d) (or_else (Message d) (or_else (message d) (raw d)))))"
| "handleApiError (NoResponse m) =
     Error ''No response from Xero API. Check your internet connection.''"
| "handleApiError (SetupError m) = AxiosError (SetupError m)"

definition getConnections :: "env \<Rightarrow> world \<Rightarrow> (error + connection list) \<times> world" where
  "getConnections ev w =
     (case getAccessToken ev w of
        (Inl e, w1) \<Rightarrow> (Inl e, w1)
      | (Inr token, w1) \<Rightarrow>
          let (r, dt) = connections ev token;
              w2 = sent (ConnectionsGet token) dt w1
          in (case r of
                Inr d \<Rightarrow> (Inr d, w2)
              | Inl e \<Rightarrow> (Inl (handleApiError e), w2)))"

text \<open>
  \<^verbatim>\<open>apiRequest\<close>. \<^verbatim>\<open>null\<close> for \<open>data\<close> or \<open>params\<close> is \<open>None\<close>; \<open>params\<close> is an object when
  it is given, so it is attached then, and \<open>data\<close> is attached when it is truthy.
\<close>

definition apiRequest ::
  "env \<Rightarrow> string \<Rightarrow> string \<Rightarrow> json option \<Rightarrow> (string \<times> json) list option \<Rightarrow> world
   \<Rightarrow> (error + json) \<times> world" where
  "apiRequest ev meth endpoint dat ps w =
     (case getAccessToken ev w of
        (Inl e, w1) \<Rightarrow> (Inl e, w1)
      | (Inr token, w1) \<Rightarrow>
          let tenant = tenantId (store w1) in
          if tenant = [] then
            (Inl (Error ''No tenant ID configured. Please run: xero auth login''), w1)
          else
            let cfg = \<lparr>http_method = meth, url = XERO_BASE_URL @ endpoint, bearer = token,
                       xero_tenant_id = tenant, params = ps,
                       data = (case dat of None \<Rightarrow> None
                               | Some j \<Rightarrow> if truthy j then Some j else None)\<rparr>;
                (r, dt) = resources ev cfg;
                w2 = sent (ApiCall cfg) dt w1
            in (case r of
                  Inr d \<Rightarrow> (Inr d, w2)
                | Inl e \<Rightarrow> (Inl (handleApiError e), w2)))"

section \<open>Resource operations (src/api.js)\<close>

text \<open>
  Each operation builds its arguments, calls \<^verbatim>\<open>apiRequest\<close> and unwraps the answer:
  \<^verbatim>\<open>data.K || []\<close> for a list, \<^verbatim>\<open>(data.K || [])[0] || null\<close> for one item.
\<close>

definition unwrap_list :: "string \<Rightarrow> (error + json) \<times> world \<Rightarrow> (error + json) \<times> world" where
  "unwrap_list k r =
     (case r of
        (Inl e, w) \<Rightarrow> (Inl e, w)
      | (Inr d, w) \<Rightarrow>
          (case member_of d k of
             Inl e \<Rightarrow> (Inl e, w)
           | Inr v \<Rightarrow> (Inr (or_empty v), w)))"

definition unwrap_first :: "string \<Rightarrow> (error + json) \<times> world \<Rightarrow> (error + json) \<times> world" where
  "unwrap_first k r =
     (case r of
        (Inl e, w) \<Rightarrow> (Inl e, w)
      | (Inr d, w) \<Rightarrow>
          (case member_of d k of
             Inl e \<Rightarrow> (Inl e, w)
           | Inr v \<Rightarrow> (Inr (or_null (index0 (or_empty v))), w)))"

text \<open>An optional member of an object literal: there when the string is truthy.\<close>

definition opt_member :: "string \<Rightarrow> string option \<Rightarrow> (string \<Rightarrow> json) \<Rightarrow> (string \<times> json) list" where
  "opt_member k v f = (case v of None \<Rightarrow> [] | Some s \<Rightarrow> if s \<noteq> [] then [(k, f s)] else [])"

text \<open>
  The query parameters of \<^verbatim>\<open>listInvoices\<close>; \<open>limit\<close> is 50 when the caller gives none.
\<close>

definition listInvoices_params :: "string option \<Rightarrow> jsnum option \<Rightarrow> (string \<times> json) list" where
  "listInvoices_params status limit =
     [(''page'', JNum 1)]
     @ opt_member ''Statuses'' status JStr
     @ (case (case limit of None \<Rightarrow> Num 50 | Some l \<Rightarrow> l) of
          Num n \<Rightarrow> if n \<noteq> 0 then [(''pageSize'', JNum (min n 100))] else []
        | NaN \<Rightarrow> [])"

definition listInvoices ::
  "env \<Rightarrow> string option \<Rightarrow> jsnum option \<Rightarrow> world \<Rightarrow> (error + json) \<times> world" where
  "listInvoices ev status limit w =
     unwrap_list ''Invoices''
       (apiRequest ev ''GET'' ''/Invoices'' None (Some (listInvoices_params status limit)) w)"

definition getInvoice :: "env \<Rightarrow> string \<Rightarrow> world \<Rightarrow> (error + json) \<times> world" where
  "getInvoice ev invoiceId w =
     unwrap_first ''Invoices'' (apiRequest ev ''GET'' (''/Invoices/'' @ invoiceId) None None w)"

definition createInvoice ::
  "env \<Rightarrow> string \<Rightarrow> json \<Rightarrow> string option \<Rightarrow> string option \<Rightarrow> string option \<Rightarrow> world
   \<Rightarrow> (error + json) \<times> world" where
  "createInvoice ev contactId lineItems type status dueDate w =
     (let body = JObj ([(''Type'', JStr (case type of None \<Rightarrow> ''ACCREC'' | Some t \<Rightarrow> t)),
                        (''Status'', JStr (case status of None \<Rightarrow> ''DRAFT'' | Some t \<Rightarrow> t)),
                        (''Contact'', JObj [(''ContactID'', JStr contactId)]),
                        (''LineItems'', lineItems)]
                       @ opt_member ''DueDate'' dueDate JStr)
      in unwrap_first ''Invoices''
           (apiRequest ev ''POST'' ''/Invoices'' (Some (JObj [(''Invoices'', JArr [body])])) None w))"

definition listContacts :: "env \<Rightarrow> string option \<Rightarrow> world \<Rightarrow> (error + json) \<times> world" where
  "listContacts ev search w =
     unwrap_list ''Contacts''
       (apiRequest ev ''GET'' ''/Contacts'' None (Some (opt_member ''SearchTerm'' search JStr)) w)"

definition getContact :: "env \<Rightarrow> string \<Rightarrow> world \<Rightarrow> (error + json) \<times> world" where
  "getContact ev contactId w =
     unwrap_first ''Contacts'' (apiRequest ev ''GET'' (''/Contacts/'' @ contactId) None None w)"

definition createContact ::
  "env \<Rightarrow> string \<Rightarrow> string option \<Rightarrow> string option \<Rightarrow> world \<Rightarrow> (error + json) \<times> world" where
  "createContact ev name email phone w =
     (let body = JObj ([(''Name'', JStr name)]
                       @ opt_member ''EmailAddress'' email JStr
                       @ opt_member ''Phones'' phone
                           (\<lambda>p. JArr [JObj [(''PhoneType'', JStr ''DEFAULT''),
                                             (''PhoneNumber'', JStr p)]]))
      in unwrap_first ''Contacts''
           (apiRequest ev ''POST'' ''/Contacts'' (Some (JObj [(''Contacts'', JArr [body])])) None w))"

definition listAccounts :: "env \<Rightarrow> world \<Rightarrow> (error + json) \<times> world" where
  "listAccounts ev w = unwrap_list ''Accounts'' (apiRequest ev ''GET'' ''/Accounts'' None None w)"

definition listPayments :: "env \<Rightarrow> world \<Rightarrow> (error + json) \<times> world" where
  "listPayments ev w = unwrap_list ''Payments'' (apiRequest ev ''GET'' ''/Payments'' None None w)"

definition listBankTransactions :: "env \<Rightarrow> string option \<Rightarrow> world \<Rightarrow> (error + json) \<times> world" where
  "listBankTransactions ev accountId w =
     unwrap_list ''BankTransactions''
       (apiRequest ev ''GET'' ''/BankTransactions'' None
          (Some (opt_member ''BankAccountID'' accountId JStr)) w)"

text \<open>The operations as data, to speak about all of them at once.\<close>

datatype resource_op =
    ListInvoices "string option" "jsnum option"
  | GetInvoice string
  | CreateInvoice string json "string option" "string option" "string option"
  | ListContacts "string option"
  | GetContact string
  | CreateContact string "string option" "string option"
  | ListAccounts
  | ListPayments
  | ListBankTransactions "string option"

fun run_op :: "env \<Rightarrow> resource_op \<Rightarrow> world \<Rightarrow> (error + json) \<times> world" where
  "run_op ev (ListInvoices status limit) w = listInvoices ev status limit w"
| "run_op ev (GetInvoice i) w = getInvoice ev i w"
| "run_op ev (CreateInvoice c l t s d) w = createInvoice ev c l t s d w"
| "run_op ev (ListContacts s) w = listContacts ev s w"
| "run_op ev (GetContact i) w = getContact ev i w"
| "run_op ev (CreateContact n e p) w = createContact ev n e p w"
| "run_op ev ListAccounts w = listAccounts ev w"
| "run_op ev ListPayments w = listPayments ev w"
| "run_op ev (ListBankTransactions a) w = listBankTransactions ev a w"

section \<open>The callback listener of \<^verbatim>\<open>auth login\<close>\<close>

text \<open>
  The login action waits on a promise that the request handler of a local HTTP server
  settles. The listener is the server (listening or closed) and the promise.
\<close>

datatype promise = Pending | Resolved | Rejected error

record listener =
  listening :: bool
  outcome :: promise

text \<open>A promise settles once: \<^verbatim>\<open>resolve\<close> and \<^verbatim>\<open>reject\<close> on a settled promise do nothing.\<close>

definition settle :: "promise \<Rightarrow> listener \<Rightarrow> listener" where
  "settle p l = (if outcome l = Pending then l\<lparr>outcome := p\<rparr> else l)"

text \<open>\<^verbatim>\<open>server.close()\<close>.\<close>

definition close_server :: "listener \<Rightarrow> listener" where
  "close_server l = l\<lparr>listening := False\<rparr>"

text \<open>
  An incoming request, as the handler reads it: the path and the two query parameters
  (\<^verbatim>\<open>searchParams.get\<close> gives \<^verbatim>\<open>null\<close> for a missing one).
\<close>

record callback_request =
  pathname :: string
  query_code :: "string option"
  query_error :: "string option"

record http_response =
  status_code :: nat
  content :: string

definition redirectUri :: "nat \<Rightarrow> string" where
  "redirectUri port = ''http://localhost:'' @ show_nat port @ ''/callback''"

text \<open>
  The handler passed to \<^verbatim>\<open>createServer\<close>. What it prints on the terminal is left out.
\<close>

definition callback_handler ::
  "env \<Rightarrow> nat \<Rightarrow> callback_request \<Rightarrow> listener \<times> world \<Rightarrow> http_response \<times> listener \<times> world" where
  "callback_handler ev port req lw =
     (let (l, w) = lw;
          failed = (\<lambda>err w'.
            (\<lparr>status_code = 500,
              content = ''<h1>Authentication Failed</h1><p>'' @ error_message err @ ''</p>''\<rparr>,
             settle (Rejected err) (close_server l), w'))
      in
      if pathname req = ''/callback'' then
        if present (query_error req) then
          (\<lparr>status_code = 400,
            content = ''<h1>Authentication Failed</h1><p>Error: '' @ the (query_error req) @ ''</p>''\<rparr>,
           settle (Rejected (Error (''OAuth error: '' @ the (query_error req)))) (close_server l),
           w)
        else if \<not> present (query_code req) then
          (\<lparr>status_code = 400,
            content = ''<h1>Authentication Failed</h1><p>No code received.</p>''\<rparr>,
           settle (Rejected (Error ''No authorization code received'')) (close_server l),
           w)
        else
          (case exchangeCodeForTokens ev (the (query_code req)) (redirectUri port) w of
             (Inl err, w1) \<Rightarrow> failed err w1
           | (Inr tokens, w1) \<Rightarrow>
               (case getConnections ev w1 of
                  (Inl err, w2) \<Rightarrow> failed err w2
                | (Inr conns, w2) \<Rightarrow>
                    let w3 = (case conns of
                                [] \<Rightarrow> w2
                              | tenant # rest \<Rightarrow>
                                  w2\<lparr>store := (store w2)\<lparr>tenantId := conn_tenantId tenant\<rparr>\<rparr>)
                    in (\<lparr>status_code = 200,
                         content = ''<h1>Authentication Successful!</h1><p>You can close this tab and return to your terminal.</p>''\<rparr>,
                        settle Resolved (close_server l), w3)))
      else
        (\<lparr>status_code = 404, content = ''Not found''\<rparr>, l, w))"

text \<open>
  The server: it hands a request to the handler while it listens, and takes no
  connection once it is closed. It starts listening with the promise pending.
\<close>

definition start_listener :: listener where
  "start_listener = \<lparr>listening = True, outcome = Pending\<rparr>"

definition serve ::
  "env \<Rightarrow> nat \<Rightarrow> callback_request \<Rightarrow> listener \<times> world
   \<Rightarrow> http_response option \<times> listener \<times> world" where
  "serve ev port req lw =
     (if listening (fst lw) then
        (case callback_handler ev port req lw of (resp, l', w') \<Rightarrow> (Some resp, l', w'))
      else (None, lw))"

fun serve_all ::
  "env \<Rightarrow> nat \<Rightarrow> callback_request list \<Rightarrow> listener \<times> world
   \<Rightarrow> http_response option list \<times> listener \<times> world" where
  "serve_all ev port [] lw = ([], lw)"
| "serve_all ev port (req # reqs) lw =
     (case serve ev port req lw of
        (resp, lw') \<Rightarrow>
          (case serve_all ev port reqs lw' of (resps, lw'') \<Rightarrow> (resp # resps, lw'')))"

section \<open>Counting what was sent\<close>

fun is_token_post :: "request \<Rightarrow> bool" where
  "is_token_post (TokenPost cred g) = True"
| "is_token_post r = False"

definition token_posts :: "request list \<Rightarrow> nat" where
  "token_posts rs = length (filter is_token_post rs)"

definition resource_calls :: "request list \<Rightarrow> nat" where
  "resource_calls rs = length (filter (\<lambda>r. \<not> is_token_post r) rs)"

text \<open>The request \<^verbatim>\<open>refreshAccessToken\<close> sends from a store.\<close>

definition basic_credentials :: "config \<Rightarrow> string" where
  "basic_credentials c = clientId c @ '':'' @ clientSecret c"

definition refresh_request :: "config \<Rightarrow> request" where
  "refresh_request c = TokenPost (basic_credentials c) (refresh_token_grant (refreshToken c))"

section \<open>Sample servers and stores\<close>

definition sample_tokens :: token_response where
  "sample_tokens =
     \<lparr>access_token = Some (JStr ''AT1''), refresh_token = Some (JStr ''RT1''),
      expires_in = Some (JNum 1800)\<rparr>"

text \<open>A granted answer without \<^verbatim>\<open>refresh_token\<close>, and one without \<^verbatim>\<open>expires_in\<close>.\<close>

definition tokens_without_refresh :: token_response where
  "tokens_without_refresh =
     \<lparr>access_token = Some (JStr ''AT2''), refresh_token = None,
      expires_in = Some (JNum 1800)\<rparr>"

definition tokens_without_expiry :: token_response where
  "tokens_without_expiry =
     \<lparr>access_token = Some (JStr ''AT3''), refresh_token = Some (JStr ''RT3''),
      expires_in = None\<rparr>"

text \<open>Messages for the store library to throw.\<close>

fun sample_refusal_text :: "string \<Rightarrow> refusal \<Rightarrow> string" where
  "sample_refusal_text key Undefined_value = ''Use `delete()` to clear values''"
| "sample_refusal_text key Schema_violation =
     ''Config schema violation: `'' @ key @ ''` must be ''
     @ (if key = ''tokenExpiry'' then ''number'' else ''string'')"

definition no_body :: error_body where
  "no_body = \<lparr>error_description = None, Detail = None, Message = None, message = None,
              raw = ''{}''\<rparr>"

text \<open>Servers that answer every request well, after 250, 100 and 80 milliseconds.\<close>

definition servers_up :: env where
  "servers_up =
     \<lparr>identity = (\<lambda>cred g. (Inr sample_tokens, 250)),
      connections = (\<lambda>t. (Inr [\<lparr>conn_tenantId = ''T1'', conn_tenantName = ''Org''\<rparr>], 100)),
      resources = (\<lambda>c. (Inr (JObj [(''Invoices'', JArr [])]), 80)),
      coerce_number = (\<lambda>v. NaN),
      refusal_text = sample_refusal_text\<rparr>"

text \<open>The same, with an identity endpoint that grants without a refresh token.\<close>

definition servers_no_rotation :: env where
  "servers_no_rotation =
     servers_up\<lparr>identity := (\<lambda>cred g. (Inr tokens_without_refresh, 250))\<rparr>"

text \<open>The same, with an identity endpoint that grants without \<^verbatim>\<open>expires_in\<close>.\<close>

definition servers_no_expiry :: env where
  "servers_no_expiry =
     servers_up\<lparr>identity := (\<lambda>cred g. (Inr tokens_without_expiry, 250))\<rparr>"

text \<open>An identity endpoint that answers 400 \<^verbatim>\<open>invalid_grant\<close>.\<close>

definition identity_rejects :: env where
  "identity_rejects =
     servers_up\<lparr>identity :=
       (\<lambda>cred g. (Inl (HttpError 400 (no_body\<lparr>error_description := Some ''invalid_grant''\<rparr>)
                          ''Request failed with status code 400''), 250))\<rparr>"

definition empty_world :: world where
  "empty_world = \<lparr>store = default_config, clock = 1000000, net_log = []\<rparr>"

text \<open>A store after \<^verbatim>\<open>config set\<close>: client id and secret, no tokens, no tenant.\<close>

definition configured_world :: world where
  "configured_world =
     empty_world\<lparr>store := default_config\<lparr>clientId := ''id'', clientSecret := ''secret''\<rparr>\<rparr>"

text \<open>A store after a login long ago: the access token has expired.\<close>

definition stale_world :: world where
  "stale_world =
     empty_world\<lparr>store := \<lparr>clientId = ''id'', clientSecret = ''secret'', accessToken = ''AT0'',
                             refreshToken = ''R1'', tokenExpiry = 900000, tenantId = ''T1''\<rparr>\<rparr>"

text \<open>A store after a login a moment ago: the access token is good for half an hour.\<close>

definition fresh_world :: world where
  "fresh_world =
     empty_world\<lparr>store := \<lparr>clientId = ''id'', clientSecret = ''secret'', accessToken = ''AT0'',
                             refreshToken = ''R1'', tokenExpiry = 2800000, tenantId = ''T1''\<rparr>\<rparr>"

text \<open>What the sample login and the sample refresh leave behind, 250 ms later.\<close>

definition logged_in_world :: world where
  "logged_in_world =
     \<lparr>store = \<lparr>clientId = ''id'', clientSecret = ''secret'', accessToken = ''AT1'',
                refreshToken = ''RT1'', tokenExpiry = 1000250 + 1800000, tenantId = []\<rparr>,
      clock = 1000250,
      net_log = [TokenPost ''id:secret''
                   (authorization_code_grant ''code1'' ''http://localhost:8765/callback'')]\<rparr>"

definition refreshed_world :: world where
  "refreshed_world =
     \<lparr>store = \<lparr>clientId = ''id'', clientSecret = ''secret'', accessToken = ''AT1'',
                refreshToken = ''RT1'', tokenExpiry = 1000250 + 1800000, tenantId = ''T1''\<rparr>,
      clock = 1000250,
      net_log = [TokenPost ''id:secret'' (refresh_token_grant ''R1'')]\<rparr>"

text \<open>A store that has a refresh token and no client id or secret.\<close>

definition tokens_only_world :: world where
  "tokens_only_world = empty_world\<lparr>store := default_config\<lparr>refreshToken := ''R1''\<rparr>\<rparr>"

text \<open>The stale store before a tenant was chosen, and what a refresh makes of it.\<close>

definition stale_no_tenant_world :: world where
  "stale_no_tenant_world = stale_world\<lparr>store := (store stale_world)\<lparr>tenantId := []\<rparr>\<rparr>"

definition refreshed_no_tenant_world :: world where
  "refreshed_no_tenant_world =
     refreshed_world\<lparr>store := (store refreshed_world)\<lparr>tenantId := []\<rparr>\<rparr>"

text \<open>A resource API that answers 429, and one that answers 500 with a \<open>Message\<close>.\<close>

definition rate_limited :: env where
  "rate_limited =
     servers_up\<lparr>resources :=
       (\<lambda>c. (Inl (HttpError 429 no_body ''Request failed with status code 429''), 80))\<rparr>"

definition boom_body :: error_body where
  "boom_body = no_body\<lparr>Detail := Some [], Message := Some ''boom''\<rparr>"

text \<open>The redirects a browser may send to the listener, and a stray request.\<close>

definition code_callback :: callback_request where
  "code_callback = \<lparr>pathname = ''/callback'', query_code = Some ''abc123'', query_error = None\<rparr>"

definition error_callback :: callback_request where
  "error_callback =
     \<lparr>pathname = ''/callback'', query_code = None, query_error = Some ''access_denied''\<rparr>"

definition stray_request :: callback_request where
  "stray_request = \<lparr>pathname = ''/other'', query_code = None, query_error = None\<rparr>"

section \<open>Properties\<close>

subsection \<open>What the writes leave\<close>

lemma expiry_of_number: "expiry ev now (Some (JNum k)) = Num (now + k * 1000)"
  by (simp add: expiry_def)

lemma setConfig_string_done:
  "setConfig_string ev key put v c = Inr c' \<Longrightarrow> \<exists>s. v = Some (JStr s) \<and> c' = put s c"
  by (auto simp: setConfig_string_def split: option.splits json.splits)

lemma setConfig_number_done:
  "setConfig_number ev key put v c = Inr c' \<Longrightarrow> \<exists>n. v = Num n \<and> c' = put n c"
  by (auto simp: setConfig_number_def split: jsnum.splits)

lemma store_refreshed_done:
  assumes "store_refreshed ev now resp c = (None, c')"
  shows "\<exists>a n. access_token resp = Some (JStr a)
           \<and> expiry ev now (expires_in resp) = Num n
           \<and> c' = c\<lparr>accessToken := a,
                     refreshToken := (if truthy_member (refresh_token resp)
                                      then string_member (refresh_token resp)
                                      else refreshToken c),
                     tokenExpiry := n\<rparr>"
  using assms
  by (auto simp: store_refreshed_def split: sum.splits if_splits
      dest!: setConfig_string_done setConfig_number_done)

lemma store_exchanged_done:
  assumes "store_exchanged ev now resp c = (None, c')"
  shows "\<exists>a rt n. access_token resp = Some (JStr a) \<and> refresh_token resp = Some (JStr rt)
           \<and> expiry ev now (expires_in resp) = Num n
           \<and> c' = c\<lparr>accessToken := a, refreshToken := rt, tokenExpiry := n\<rparr>"
  using assms
  by (auto simp: store_exchanged_def split: sum.splits
      dest!: setConfig_string_done setConfig_number_done)

lemma store_refreshed_frame:
  "clientId (snd (store_refreshed ev now resp c)) = clientId c"
  "clientSecret (snd (store_refreshed ev now resp c)) = clientSecret c"
  "tenantId (snd (store_refreshed ev now resp c)) = tenantId c"
  by (auto simp: store_refreshed_def split: sum.splits if_splits
      dest!: setConfig_string_done setConfig_number_done)

subsection \<open>The three ways a refresh ends\<close>

lemma refresh_without_token:
  "refreshToken (store w) = [] \<Longrightarrow>
   refreshAccessToken ev w =
     (Inl (Error ''No refresh token available. Please run: xero auth login''), w)"
  by (simp add: refreshAccessToken_def)

lemma refresh_rejected:
  assumes "refreshToken (store w) \<noteq> []"
    and "identity ev (basic_credentials (store w)) (refresh_token_grant (refreshToken (store w)))
         = (Inl e, dt)"
  shows "refreshAccessToken ev w =
     (Inl (Error (''Token refresh failed: '' @ exchange_failure_msg e)),
      sent (refresh_request (store w)) dt w)"
  using assms by (simp add: refreshAccessToken_def basic_credentials_def refresh_request_def Let_def)

lemma refresh_granted:
  assumes "refreshToken (store w) \<noteq> []"
    and "identity ev (basic_credentials (store w)) (refresh_token_grant (refreshToken (store w)))
         = (Inr resp, dt)"
  shows "refreshAccessToken ev w =
     (case store_refreshed ev (clock w + int dt) resp (store w) of
        (Some m, c') \<Rightarrow>
          (Inl (Error (''Token refresh failed: '' @ m)),
           (sent (refresh_request (store w)) dt w)\<lparr>store := c'\<rparr>)
      | (None, c') \<Rightarrow>
          (Inr (string_member (access_token resp)),
           (sent (refresh_request (store w)) dt w)\<lparr>store := c'\<rparr>))"
  using assms
  by (simp add: refreshAccessToken_def basic_credentials_def refresh_request_def sent_def Let_def
      split: prod.splits option.splits)

lemma refresh_cases:
  obtains (no_token) "refreshToken (store w) = []"
  | (rejected) e dt where "refreshToken (store w) \<noteq> []"
      "identity ev (basic_credentials (store w)) (refresh_token_grant (refreshToken (store w)))
         = (Inl e, dt)"
  | (granted) resp dt where "refreshToken (store w) \<noteq> []"
      "identity ev (basic_credentials (store w)) (refresh_token_grant (refreshToken (store w)))
         = (Inr resp, dt)"
proof (cases "refreshToken (store w) = []")
  case True then show ?thesis by (rule no_token)
next
  case False
  obtain r dt where r: "identity ev (basic_credentials (store w)) (refresh_token_grant (refreshToken (store w))) = (r, dt)"
    by (cases "identity ev (basic_credentials (store w)) (refresh_token_grant (refreshToken (store w)))")
  show ?thesis
  proof (cases r)
    case (Inl e) with False r show ?thesis by (auto intro: rejected)
  next
    case (Inr resp) with False r show ?thesis by (auto intro: granted)
  qed
qed

lemma refresh_log:
  "net_log (snd (refreshAccessToken ev w)) =
     net_log w @ (if refreshToken (store w) = [] then [] else [refresh_request (store w)])"
  by (rule refresh_cases [where w = w and ev = ev])
     (auto simp: refresh_without_token refresh_rejected refresh_granted sent_def
      split: prod.splits option.splits)

lemma refresh_done:
  assumes "refreshAccessToken ev w = (Inr t, w')"
  shows "\<exists>resp dt n.
     identity ev (basic_credentials (store w)) (refresh_token_grant (refreshToken (store w)))
       = (Inr resp, dt)
     \<and> refreshToken (store w) \<noteq> []
     \<and> access_token resp = Some (JStr t)
     \<and> expiry ev (clock w + int dt) (expires_in resp) = Num n
     \<and> w' = (sent (refresh_request (store w)) dt w)
              \<lparr>store := (store w)
                 \<lparr>accessToken := t,
                  refreshToken := (if truthy_member (refresh_token resp)
                                   then string_member (refresh_token resp)
                                   else refreshToken (store w)),
                  tokenExpiry := n\<rparr>\<rparr>"
proof (rule refresh_cases [where w = w and ev = ev])
  assume "refreshToken (store w) = []"
  with assms show ?thesis by (simp add: refresh_without_token)
next
  fix e dt
  assume "refreshToken (store w) \<noteq> []"
    "identity ev (basic_credentials (store w)) (refresh_token_grant (refreshToken (store w)))
         = (Inl e, dt)"
  with assms show ?thesis by (simp add: refresh_rejected)
next
  fix resp dt
  assume g: "refreshToken (store w) \<noteq> []"
    "identity ev (basic_credentials (store w)) (refresh_token_grant (refreshToken (store w)))
         = (Inr resp, dt)"
  obtain m c' where s: "store_refreshed ev (clock w + int dt) resp (store w) = (m, c')"
    by (cases "store_refreshed ev (clock w + int dt) resp (store w)")
  with assms refresh_granted [OF g] have m: "m = None"
    and t: "t = string_member (access_token resp)"
    and w': "w' = (sent (refresh_request (store w)) dt w)\<lparr>store := c'\<rparr>"
    by (auto split: option.splits)
  from store_refreshed_done [OF s [unfolded m]] t w' g show ?thesis by auto
qed

subsection \<open>Token validity\<close>

text \<open>
  C7. The validity check is true exactly when the access token is not empty and
  \<open>tokenExpiry - now > 60000\<close>; so it is false for an empty access token whatever the
  expiry, and false whenever \<open>tokenExpiry - now \<le> 60000\<close>.
\<close>

theorem hasValidToken_iff:
  "(hasValidToken c now \<longleftrightarrow> accessToken c \<noteq> [] \<and> tokenExpiry c - now > 60000)
   \<and> (accessToken c = [] \<longrightarrow> \<not> hasValidToken c now)
   \<and> (tokenExpiry c - now \<le> 60000 \<longrightarrow> \<not> hasValidToken c now)"
  by (auto simp: hasValidToken_def)

theorem hasValidToken_iff_witness:
  "hasValidToken (store fresh_world) 2739999
   \<and> accessToken (store empty_world) = [] \<and> \<not> hasValidToken (store empty_world) (- 5000000)
   \<and> tokenExpiry (store fresh_world) - 2740000 \<le> 60000
   \<and> \<not> hasValidToken (store fresh_world) 2740000"
  using hasValidToken_iff [of "store fresh_world" 2739999]
    hasValidToken_iff [of "store empty_world" "- 5000000"]
    hasValidToken_iff [of "store fresh_world" 2740000]
  by (simp add: fresh_world_def empty_world_def default_config_def)

subsection \<open>How the authorization-code exchange ends\<close>

lemma exchange_unconfigured:
  "clientId (store w) = [] \<or> clientSecret (store w) = [] \<Longrightarrow>
   exchangeCodeForTokens ev code uri w =
     (Inl (Error ''Client ID and secret not configured. Run: xero config set --client-id <id> --client-secret <secret>''), w)"
  by (auto simp add: exchangeCodeForTokens_def)

lemma exchange_answered:
  assumes "clientId (store w) \<noteq> []" "clientSecret (store w) \<noteq> []"
    and "identity ev (basic_credentials (store w)) (authorization_code_grant code uri)
         = (Inr resp, dt)"
  shows "exchangeCodeForTokens ev code uri w =
     (case store_exchanged ev (clock w + int dt) resp (store w) of
        (Some m, c') \<Rightarrow>
          (Inl (Error (''Token exchange failed: '' @ m)),
           (sent (TokenPost (basic_credentials (store w)) (authorization_code_grant code uri))
              dt w)\<lparr>store := c'\<rparr>)
      | (None, c') \<Rightarrow>
          (Inr resp,
           (sent (TokenPost (basic_credentials (store w)) (authorization_code_grant code uri))
              dt w)\<lparr>store := c'\<rparr>))"
  using assms
  by (simp add: exchangeCodeForTokens_def basic_credentials_def sent_def Let_def
      split: prod.splits option.splits)

lemma exchange_granted:
  assumes "exchangeCodeForTokens ev code uri w = (Inr resp, w')"
  shows "\<exists>dt a rt n.
           identity ev (basic_credentials (store w)) (authorization_code_grant code uri)
             = (Inr resp, dt)
         \<and> access_token resp = Some (JStr a) \<and> refresh_token resp = Some (JStr rt)
         \<and> expiry ev (clock w + int dt) (expires_in resp) = Num n
         \<and> clientId (store w) \<noteq> [] \<and> clientSecret (store w) \<noteq> []
         \<and> w' = (sent (TokenPost (basic_credentials (store w))
                          (authorization_code_grant code uri)) dt w)
                 \<lparr>store := (store w)\<lparr>accessToken := a, refreshToken := rt,
                     tokenExpiry := n\<rparr>\<rparr>"
proof -
  from assms have cfg: "clientId (store w) \<noteq> []" "clientSecret (store w) \<noteq> []"
    by (auto simp: exchangeCodeForTokens_def split: if_splits)
  obtain r dt where i:
    "identity ev (basic_credentials (store w)) (authorization_code_grant code uri) = (r, dt)"
    by (cases "identity ev (basic_credentials (store w)) (authorization_code_grant code uri)")
  from assms cfg i obtain resp' where r: "r = Inr resp'"
    by (cases r)
       (auto simp: exchangeCodeForTokens_def basic_credentials_def Let_def)
  obtain m c' where s: "store_exchanged ev (clock w + int dt) resp' (store w) = (m, c')"
    by (cases "store_exchanged ev (clock w + int dt) resp' (store w)")
  from assms exchange_answered [OF cfg i [unfolded r]] s
  have m: "m = None" and resp: "resp' = resp"
    and w': "w' = (sent (TokenPost (basic_credentials (store w))
                          (authorization_code_grant code uri)) dt w)\<lparr>store := c'\<rparr>"
    by (auto split: option.splits)
  from store_exchanged_done [OF s [unfolded m resp]] i r resp w' cfg show ?thesis by auto
qed

lemmas write_defs = store_refreshed_def store_exchanged_def setConfig_string_def
  setConfig_number_def expiry_def truthy_member_def

lemma exchange_sample:
  "exchangeCodeForTokens servers_up ''code1'' ''http://localhost:8765/callback'' configured_world
   = (Inr sample_tokens, logged_in_world)"
  by (simp add: exchangeCodeForTokens_def servers_up_def configured_world_def empty_world_def
      default_config_def sample_tokens_def sent_def Let_def logged_in_world_def write_defs)

lemma refresh_sample:
  "refreshAccessToken servers_up stale_world = (Inr ''AT1'', refreshed_world)"
  by (simp add: refreshAccessToken_def servers_up_def stale_world_def empty_world_def
      sample_tokens_def sent_def Let_def refreshed_world_def write_defs)

subsection \<open>Failed refresh\<close>

text \<open>
  C9. A refresh that fails for want of a refresh token, or because the identity endpoint
  rejects the request, leaves every field of the store as it was; the call that needed
  the token ends with that failure.
\<close>

theorem failed_refresh_keeps_store:
  "(refreshToken (store w) = [] \<longrightarrow>
      refreshAccessToken ev w
        = (Inl (Error ''No refresh token available. Please run: xero auth login''), w))
   \<and> (refreshToken (store w) \<noteq> []
       \<and> identity ev (basic_credentials (store w)) (refresh_token_grant (refreshToken (store w)))
           = (Inl err, dt) \<longrightarrow>
      (\<exists>w'. refreshAccessToken ev w
               = (Inl (Error (''Token refresh failed: '' @ exchange_failure_msg err)), w')
            \<and> store w' = store w))
   \<and> (\<not> hasValidToken (store w) (clock w) \<and> refreshAccessToken ev w = (Inl e, w'')
        \<longrightarrow> apiRequest ev meth endpoint dat ps w = (Inl e, w'')
          \<and> getConnections ev w = (Inl e, w''))"
proof -
  have rejected: "\<exists>w'. refreshAccessToken ev w
               = (Inl (Error (''Token refresh failed: '' @ exchange_failure_msg err)), w')
            \<and> store w' = store w"
    if "refreshToken (store w) \<noteq> []"
      "identity ev (basic_credentials (store w)) (refresh_token_grant (refreshToken (store w)))
           = (Inl err, dt)"
    using refresh_rejected [OF that] by (simp add: sent_def)
  have passed_on: "apiRequest ev meth endpoint dat ps w = (Inl e, w'')
          \<and> getConnections ev w = (Inl e, w'')"
    if "\<not> hasValidToken (store w) (clock w)" "refreshAccessToken ev w = (Inl e, w'')"
    using that by (simp add: apiRequest_def getConnections_def getAccessToken_def)
  from rejected passed_on refresh_without_token [of w ev] show ?thesis by blast
qed

theorem failed_refresh_keeps_store_witness:
  "refreshToken (store configured_world) = []
   \<and> refreshAccessToken servers_up configured_world
     = (Inl (Error ''No refresh token available. Please run: xero auth login''),
        configured_world)
   \<and> refreshToken (store stale_world) \<noteq> []
   \<and> identity identity_rejects (basic_credentials (store stale_world))
        (refresh_token_grant (refreshToken (store stale_world)))
      = (Inl (HttpError 400 (no_body\<lparr>error_description := Some ''invalid_grant''\<rparr>)
                ''Request failed with status code 400''), 250)
   \<and> (\<exists>w'. refreshAccessToken identity_rejects stale_world
             = (Inl (Error ''Token refresh failed: invalid_grant''), w')
           \<and> store w' = store stale_world)
   \<and> \<not> hasValidToken (store stale_world) (clock stale_world)
   \<and> apiRequest identity_rejects ''GET'' ''/Invoices'' None None stale_world
     = (Inl (Error ''Token refresh failed: invalid_grant''),
        sent (refresh_request (store stale_world)) 250 stale_world)"
proof -
  have n: "refreshToken (store configured_world) = []"
    by (simp add: configured_world_def empty_world_def default_config_def)
  have s: "refreshToken (store stale_world) \<noteq> []"
    by (simp add: stale_world_def empty_world_def)
  have i: "identity identity_rejects (basic_credentials (store stale_world))
        (refresh_token_grant (refreshToken (store stale_world)))
      = (Inl (HttpError 400 (no_body\<lparr>error_description := Some ''invalid_grant''\<rparr>)
                ''Request failed with status code 400''), 250)"
    by (simp add: identity_rejects_def servers_up_def)
  have r: "refreshAccessToken identity_rejects stale_world
     = (Inl (Error ''Token refresh failed: invalid_grant''),
        sent (refresh_request (store stale_world)) 250 stale_world)"
    using refresh_rejected [OF s i] by (simp add: no_body_def or_else_def)
  have v: "\<not> hasValidToken (store stale_world) (clock stale_world)"
    by (simp add: hasValidToken_def stale_world_def empty_world_def)
  have a: "refreshAccessToken servers_up configured_world
     = (Inl (Error ''No refresh token available. Please run: xero auth login''),
        configured_world)"
    using failed_refresh_keeps_store [where w = configured_world and ev = servers_up] n
    by blast
  have b: "\<exists>w'. refreshAccessToken identity_rejects stale_world
             = (Inl (Error ''Token refresh failed: invalid_grant''), w')
           \<and> store w' = store stale_world"
    using failed_refresh_keeps_store [where w = stale_world and ev = identity_rejects
        and err = "HttpError 400 (no_body\<lparr>error_description := Some ''invalid_grant''\<rparr>)
                ''Request failed with status code 400''" and dt = 250] s i
    by (simp add: no_body_def or_else_def)
  have c: "apiRequest identity_rejects ''GET'' ''/Invoices'' None None stale_world
     = (Inl (Error ''Token refresh failed: invalid_grant''),
        sent (refresh_request (store stale_world)) 250 stale_world)"
    using failed_refresh_keeps_store [where w = stale_world and ev = identity_rejects
        and e = "Error ''Token refresh failed: invalid_grant''"
        and w'' = "sent (refresh_request (store stale_world)) 250 stale_world"
        and meth = "''GET''" and endpoint = "''/Invoices''" and dat = None and ps = None] v r
    by blast
  from n s i a b c v show ?thesis by blast
qed

text \<open>
  A granted answer that the store refuses is another failure, outside the two above:
  without \<open>expires_in\<close> the third write is refused after the first two are done.
\<close>

lemma refresh_refused_write:
  "refreshAccessToken servers_no_expiry stale_world
   = (Inl (Error ''Token refresh failed: Config schema violation: `tokenExpiry` must be number''),
      (sent (refresh_request (store stale_world)) 250 stale_world)
        \<lparr>store := (store stale_world)\<lparr>accessToken := ''AT3'', refreshToken := ''RT3''\<rparr>\<rparr>)"
  by (simp add: refreshAccessToken_def servers_no_expiry_def servers_up_def stale_world_def
      empty_world_def tokens_without_expiry_def sent_def Let_def write_defs refresh_request_def
      basic_credentials_def)

subsection \<open>What a successful exchange writes\<close>

text \<open>
  From the empty store the authorization-code exchange stops at its guard: nothing is
  sent and the store stays empty, whatever the identity endpoint would answer.
\<close>

theorem exchange_from_empty_store:
  "exchangeCodeForTokens servers_up ''code1'' ''http://localhost:8765/callback'' empty_world
   = (Inl (Error ''Client ID and secret not configured. Run: xero config set --client-id <id> --client-secret <secret>''),
      empty_world)
   \<and> accessToken (store empty_world) \<noteq> ''AT1''
   \<and> fst (identity servers_up '':''
             (authorization_code_grant ''code1'' ''http://localhost:8765/callback''))
     = Inr \<lparr>access_token = Some (JStr ''AT1''), refresh_token = Some (JStr ''RT1''),
            expires_in = Some (JNum 1800)\<rparr>"
  by (simp add: exchangeCodeForTokens_def empty_world_def default_config_def servers_up_def
      sample_tokens_def)

text \<open>
  C2, as the code has it. After a successful exchange of either grant the store holds
  the access token of the response, and an expiry that is the clock at the time of
  writing plus \<open>expires_in * 1000\<close>. The authorization-code exchange succeeds only from a
  store that has a client id and a client secret: from such a store with no tokens, the
  response \<open>{access_token: AT1, refresh_token: RT1, expires_in: 1800}\<close> leaves
  \<open>accessToken = AT1\<close>, \<open>refreshToken = RT1\<close> and \<open>tokenExpiry = now + 1800000\<close>.
\<close>

theorem successful_exchange_updates_store:
  "(exchangeCodeForTokens ev code uri w = (Inr resp, w') \<longrightarrow>
      (\<exists>dt. identity ev (basic_credentials (store w)) (authorization_code_grant code uri)
               = (Inr resp, dt))
      \<and> access_token resp = Some (JStr (accessToken (store w')))
      \<and> expiry ev (clock w') (expires_in resp) = Num (tokenExpiry (store w'))
      \<and> (\<forall>k. expires_in resp = Some (JNum k) \<longrightarrow>
            tokenExpiry (store w') = clock w' + k * 1000)
      \<and> clientId (store w) \<noteq> [] \<and> clientSecret (store w) \<noteq> [])
   \<and> (refreshAccessToken ev w = (Inr t, w'') \<longrightarrow>
      (\<exists>resp' dt.
         identity ev (basic_credentials (store w)) (refresh_token_grant (refreshToken (store w)))
           = (Inr resp', dt)
         \<and> access_token resp' = Some (JStr t)
         \<and> accessToken (store w'') = t
         \<and> expiry ev (clock w'') (expires_in resp') = Num (tokenExpiry (store w''))
         \<and> (\<forall>k. expires_in resp' = Some (JNum k) \<longrightarrow>
               tokenExpiry (store w'') = clock w'' + k * 1000)))"
proof -
  have code_grant: "(\<exists>dt. identity ev (basic_credentials (store w))
                            (authorization_code_grant code uri) = (Inr resp, dt))
      \<and> access_token resp = Some (JStr (accessToken (store w')))
      \<and> expiry ev (clock w') (expires_in resp) = Num (tokenExpiry (store w'))
      \<and> (\<forall>k. expires_in resp = Some (JNum k) \<longrightarrow>
            tokenExpiry (store w') = clock w' + k * 1000)
      \<and> clientId (store w) \<noteq> [] \<and> clientSecret (store w) \<noteq> []"
    if "exchangeCodeForTokens ev code uri w = (Inr resp, w')"
  proof -
    from exchange_granted [OF that] obtain dt a rt n where g:
      "identity ev (basic_credentials (store w)) (authorization_code_grant code uri)
         = (Inr resp, dt)"
      "access_token resp = Some (JStr a)"
      "expiry ev (clock w + int dt) (expires_in resp) = Num n"
      "clientId (store w) \<noteq> []" "clientSecret (store w) \<noteq> []"
      "w' = (sent (TokenPost (basic_credentials (store w))
                          (authorization_code_grant code uri)) dt w)
                 \<lparr>store := (store w)\<lparr>accessToken := a, refreshToken := rt,
                     tokenExpiry := n\<rparr>\<rparr>"
      by blast
    then have "clock w' = clock w + int dt" "accessToken (store w') = a"
      "tokenExpiry (store w') = n"
      by (simp_all add: sent_def)
    with g show ?thesis by (auto simp: expiry_of_number)
  qed
  have refresh_grant: "\<exists>resp' dt.
         identity ev (basic_credentials (store w)) (refresh_token_grant (refreshToken (store w)))
           = (Inr resp', dt)
         \<and> access_token resp' = Some (JStr t)
         \<and> accessToken (store w'') = t
         \<and> expiry ev (clock w'') (expires_in resp') = Num (tokenExpiry (store w''))
         \<and> (\<forall>k. expires_in resp' = Some (JNum k) \<longrightarrow>
               tokenExpiry (store w'') = clock w'' + k * 1000)"
    if "refreshAccessToken ev w = (Inr t, w'')"
  proof -
    from refresh_done [OF that] obtain resp' dt n where g:
      "identity ev (basic_credentials (store w)) (refresh_token_grant (refreshToken (store w)))
         = (Inr resp', dt)"
      "access_token resp' = Some (JStr t)"
      "expiry ev (clock w + int dt) (expires_in resp') = Num n"
      "w'' = (sent (refresh_request (store w)) dt w)
              \<lparr>store := (store w)
                 \<lparr>accessToken := t,
                  refreshToken := (if truthy_member (refresh_token resp')
                                   then string_member (refresh_token resp')
                                   else refreshToken (store w)),
                  tokenExpiry := n\<rparr>\<rparr>"
      by blast
    then have "clock w'' = clock w + int dt" "accessToken (store w'') = t"
      "tokenExpiry (store w'') = n"
      by (simp_all add: sent_def)
    with g(1,2,3) show ?thesis by (auto simp: expiry_of_number)
  qed
  from code_grant refresh_grant show ?thesis by blast
qed

theorem successful_exchange_updates_store_witness:
  "exchangeCodeForTokens servers_up ''code1'' ''http://localhost:8765/callback'' configured_world
   = (Inr sample_tokens, logged_in_world)
   \<and> sample_tokens = \<lparr>access_token = Some (JStr ''AT1''), refresh_token = Some (JStr ''RT1''),
                        expires_in = Some (JNum 1800)\<rparr>
   \<and> store configured_world = default_config\<lparr>clientId := ''id'', clientSecret := ''secret''\<rparr>
   \<and> accessToken (store logged_in_world) = ''AT1''
   \<and> refreshToken (store logged_in_world) = ''RT1''
   \<and> tokenExpiry (store logged_in_world) = clock logged_in_world + 1800 * 1000
   \<and> refreshAccessToken servers_up stale_world = (Inr ''AT1'', refreshed_world)
   \<and> accessToken (store refreshed_world) = ''AT1''
   \<and> tokenExpiry (store refreshed_world) = clock refreshed_world + 1800 * 1000"
proof -
  have e: "expires_in sample_tokens = Some (JNum 1800)"
    by (simp add: sample_tokens_def)
  have i: "fst (identity servers_up (basic_credentials (store stale_world))
             (refresh_token_grant (refreshToken (store stale_world)))) = Inr sample_tokens"
    by (simp add: servers_up_def)
  have a: "tokenExpiry (store logged_in_world) = clock logged_in_world + 1800 * 1000
           \<and> access_token sample_tokens = Some (JStr (accessToken (store logged_in_world)))"
    using successful_exchange_updates_store [of servers_up "''code1''"
      "''http://localhost:8765/callback''" configured_world sample_tokens logged_in_world
      "''AT1''" refreshed_world] exchange_sample e
    by blast
  have b: "tokenExpiry (store refreshed_world) = clock refreshed_world + 1800 * 1000
           \<and> accessToken (store refreshed_world) = ''AT1''"
    using successful_exchange_updates_store [of servers_up "''code1''"
      "''http://localhost:8765/callback''" stale_world sample_tokens logged_in_world
      "''AT1''" refreshed_world] refresh_sample e i
    by auto
  from a b exchange_sample refresh_sample show ?thesis
    by (simp add: sample_tokens_def logged_in_world_def configured_world_def empty_world_def)
qed

subsection \<open>The stored refresh token\<close>

lemma refresh_without_rotation:
  assumes "refreshToken (store w) \<noteq> []"
    and "identity ev (basic_credentials (store w)) (refresh_token_grant (refreshToken (store w)))
         = (Inr resp, dt)"
    and "refresh_token resp = None"
  shows "refreshToken (store (snd (refreshAccessToken ev w))) = refreshToken (store w)"
  using refresh_granted [OF assms(1,2)] assms(3)
  by (auto simp: write_defs sent_def
      split: prod.splits option.splits sum.splits json.splits jsnum.splits)

lemma code_grant_overwrites:
  assumes "clientId (store w) \<noteq> []" "clientSecret (store w) \<noteq> []"
    and "identity ev (basic_credentials (store w)) (authorization_code_grant code uri)
         = (Inr resp, dt)"
    and "access_token resp = Some (JStr a)" "refresh_token resp = Some (JStr rt)"
  shows "refreshToken (store (snd (exchangeCodeForTokens ev code uri w))) = rt"
  using exchange_answered [OF assms(1,2,3)] assms(4,5)
  by (auto simp: write_defs sent_def
      split: prod.splits option.splits sum.splits json.splits jsnum.splits)

text \<open>
  C3. A refresh whose answer has no \<open>refresh_token\<close> leaves the stored refresh token as
  it was, and an authorization-code exchange is to put the refresh token of the answer
  in the store whatever was there. The exchange does so when the answer has one. When
  the identity endpoint grants the code without a \<open>refresh_token\<close>, the store refuses the
  second write: the exchange ends as failed, the new access token is written, and the
  old refresh token and the old expiry are still there.
\<close>

theorem code_grant_without_refresh_token:
  "identity servers_no_rotation (basic_credentials (store stale_world))
     (authorization_code_grant ''code1'' ''http://localhost:8765/callback'')
   = (Inr \<lparr>access_token = Some (JStr ''AT2''), refresh_token = None,
           expires_in = Some (JNum 1800)\<rparr>, 250)
   \<and> exchangeCodeForTokens servers_no_rotation ''code1'' ''http://localhost:8765/callback''
       stale_world
     = (Inl (Error ''Token exchange failed: Use `delete()` to clear values''),
        \<lparr>store = \<lparr>clientId = ''id'', clientSecret = ''secret'', accessToken = ''AT2'',
                   refreshToken = ''R1'', tokenExpiry = 900000, tenantId = ''T1''\<rparr>,
         clock = 1000250,
         net_log = [TokenPost ''id:secret''
                      (authorization_code_grant ''code1'' ''http://localhost:8765/callback'')]\<rparr>)
   \<and> store stale_world
     = \<lparr>clientId = ''id'', clientSecret = ''secret'', accessToken = ''AT0'',
        refreshToken = ''R1'', tokenExpiry = 900000, tenantId = ''T1''\<rparr>"
  by (simp add: exchangeCodeForTokens_def servers_no_rotation_def servers_up_def
      tokens_without_refresh_def stale_world_def empty_world_def sent_def Let_def write_defs
      basic_credentials_def)

subsection \<open>What is checked before an exchange\<close>

text \<open>
  A refresh from a store without client id and secret is sent all the same.
\<close>

theorem refresh_without_client_credentials:
  "clientId (store tokens_only_world) = [] \<and> clientSecret (store tokens_only_world) = []
   \<and> fst (refreshAccessToken servers_up tokens_only_world) = Inr ''AT1''
   \<and> net_log (snd (refreshAccessToken servers_up tokens_only_world))
     = [TokenPost '':'' (refresh_token_grant ''R1'')]
   \<and> fst (refreshAccessToken identity_rejects tokens_only_world)
     = Inl (Error ''Token refresh failed: invalid_grant'')
   \<and> net_log (snd (refreshAccessToken identity_rejects tokens_only_world))
     = [TokenPost '':'' (refresh_token_grant ''R1'')]"
  by (simp add: refreshAccessToken_def tokens_only_world_def empty_world_def default_config_def
      servers_up_def identity_rejects_def no_body_def or_else_def sample_tokens_def sent_def
      Let_def write_defs)

text \<open>
  C8, as the code has it. The authorization-code exchange fails with the configuration
  error, nothing sent, when the client id or the client secret is empty. The refresh does
  not look at them: it fails before sending only when the refresh token is empty, and
  with a refresh token it sends its request whatever the client id and secret are.
\<close>

theorem exchange_preconditions:
  "(clientId (store w) = [] \<or> clientSecret (store w) = [] \<longrightarrow>
      exchangeCodeForTokens ev code uri w =
        (Inl (Error ''Client ID and secret not configured. Run: xero config set --client-id <id> --client-secret <secret>''), w))
   \<and> (refreshToken (store w) = [] \<longrightarrow>
      refreshAccessToken ev w =
        (Inl (Error ''No refresh token available. Please run: xero auth login''), w))
   \<and> (refreshToken (store w) \<noteq> [] \<longrightarrow>
      net_log (snd (refreshAccessToken ev w)) = net_log w @ [refresh_request (store w)])"
  by (simp add: exchange_unconfigured refresh_without_token refresh_log)

theorem exchange_preconditions_witness:
  "clientId (store tokens_only_world) = []
   \<and> exchangeCodeForTokens servers_up ''code1'' ''http://localhost:8765/callback'' tokens_only_world
     = (Inl (Error ''Client ID and secret not configured. Run: xero config set --client-id <id> --client-secret <secret>''),
        tokens_only_world)
   \<and> refreshToken (store configured_world) = []
   \<and> refreshAccessToken servers_up configured_world
     = (Inl (Error ''No refresh token available. Please run: xero auth login''),
        configured_world)
   \<and> refreshToken (store tokens_only_world) \<noteq> []
   \<and> net_log (snd (refreshAccessToken servers_up tokens_only_world))
     = net_log tokens_only_world @ [refresh_request (store tokens_only_world)]"
proof -
  have a: "clientId (store tokens_only_world) = []"
    and b: "refreshToken (store tokens_only_world) \<noteq> []"
    by (simp_all add: tokens_only_world_def empty_world_def default_config_def)
  have c: "refreshToken (store configured_world) = []"
    by (simp add: configured_world_def empty_world_def default_config_def)
  from exchange_preconditions [of tokens_only_world servers_up "''code1''"
      "''http://localhost:8765/callback''"]
    exchange_preconditions [of configured_world servers_up "''code1''"
      "''http://localhost:8765/callback''"]
    a b c
  show ?thesis by simp
qed

subsection \<open>Resolving the access token\<close>

lemma getAccessToken_valid:
  "hasValidToken (store w) (clock w) \<Longrightarrow> getAccessToken ev w = (Inr (accessToken (store w)), w)"
  by (simp add: getAccessToken_def)

lemma getAccessToken_stale:
  "\<not> hasValidToken (store w) (clock w) \<Longrightarrow> getAccessToken ev w = refreshAccessToken ev w"
  by (simp add: getAccessToken_def)

lemma refresh_keeps_tenant:
  "tenantId (store (snd (refreshAccessToken ev w))) = tenantId (store w)"
proof (rule refresh_cases [where w = w and ev = ev])
  fix resp dt
  assume g: "refreshToken (store w) \<noteq> []"
    "identity ev (basic_credentials (store w)) (refresh_token_grant (refreshToken (store w)))
         = (Inr resp, dt)"
  obtain m c' where s: "store_refreshed ev (clock w + int dt) resp (store w) = (m, c')"
    by (cases "store_refreshed ev (clock w + int dt) resp (store w)")
  with store_refreshed_frame(3) [of ev "clock w + int dt" resp "store w"]
  have "tenantId c' = tenantId (store w)" by simp
  with refresh_granted [OF g] s show ?thesis by (simp split: option.splits)
qed (simp_all add: refresh_without_token refresh_rejected sent_def)

lemma getAccessToken_keeps_tenant:
  "getAccessToken ev w = (r, w') \<Longrightarrow> tenantId (store w') = tenantId (store w)"
  using refresh_keeps_tenant [of ev w] by (auto simp: getAccessToken_def split: if_splits)

lemma getAccessToken_log:
  "net_log (snd (getAccessToken ev w)) =
     net_log w @ (if hasValidToken (store w) (clock w) \<or> refreshToken (store w) = [] then []
                  else [refresh_request (store w)])"
  by (simp add: getAccessToken_def refresh_log)

lemma refresh_failure_kind:
  "refreshAccessToken ev w = (Inl e, w') \<Longrightarrow>
   e = Error ''No refresh token available. Please run: xero auth login''
   \<or> (\<exists>msg. e = Error (''Token refresh failed: '' @ msg))"
  by (rule refresh_cases [where w = w and ev = ev])
     (auto simp: refresh_without_token refresh_rejected refresh_granted
      split: prod.splits option.splits)

subsection \<open>The two executors, case by case\<close>

lemma apiRequest_token_failure:
  "getAccessToken ev w = (Inl e, w') \<Longrightarrow> apiRequest ev meth endpoint dat ps w = (Inl e, w')"
  by (simp add: apiRequest_def)

lemma apiRequest_no_tenant:
  assumes "getAccessToken ev w = (Inr t, w')" and "tenantId (store w) = []"
  shows "apiRequest ev meth endpoint dat ps w =
     (Inl (Error ''No tenant ID configured. Please run: xero auth login''), w')"
  using assms getAccessToken_keeps_tenant [OF assms(1)] by (simp add: apiRequest_def)

lemma apiRequest_sends:
  assumes "getAccessToken ev w = (Inr t, w')" and "tenantId (store w) \<noteq> []"
  shows "\<exists>cfg r dt. resources ev cfg = (r, dt)
     \<and> apiRequest ev meth endpoint dat ps w =
         (case r of Inr d \<Rightarrow> Inr d | Inl e \<Rightarrow> Inl (handleApiError e), sent (ApiCall cfg) dt w')
     \<and> http_method cfg = meth \<and> url cfg = XERO_BASE_URL @ endpoint \<and> bearer cfg = t
     \<and> xero_tenant_id cfg = tenantId (store w) \<and> params cfg = ps"
proof -
  define cfg where "cfg = \<lparr>http_method = meth, url = XERO_BASE_URL @ endpoint, bearer = t,
     xero_tenant_id = tenantId (store w), params = ps,
     data = (case dat of None \<Rightarrow> None | Some j \<Rightarrow> if truthy j then Some j else None)\<rparr>"
  obtain r dt where r: "resources ev cfg = (r, dt)"
    by (cases "resources ev cfg")
  have "apiRequest ev meth endpoint dat ps w =
         (case r of Inr d \<Rightarrow> Inr d | Inl e \<Rightarrow> Inl (handleApiError e), sent (ApiCall cfg) dt w')"
    using assms getAccessToken_keeps_tenant [OF assms(1)] r
    by (simp add: apiRequest_def Let_def cfg_def split: sum.splits)
  with r show ?thesis
    by (intro exI [of _ cfg] exI [of _ r] exI [of _ dt]) (simp add: cfg_def)
qed

lemma getConnections_token_failure:
  "getAccessToken ev w = (Inl e, w') \<Longrightarrow> getConnections ev w = (Inl e, w')"
  by (simp add: getConnections_def)

lemma getConnections_sends:
  assumes "getAccessToken ev w = (Inr t, w')"
  shows "\<exists>r dt. connections ev t = (r, dt)
     \<and> getConnections ev w =
         (case r of Inr d \<Rightarrow> Inr d | Inl e \<Rightarrow> Inl (handleApiError e),
          sent (ConnectionsGet t) dt w')"
proof -
  obtain r dt where r: "connections ev t = (r, dt)"
    by (cases "connections ev t")
  with assms show ?thesis
    by (simp add: getConnections_def Let_def split: sum.splits)
qed

lemma apiRequest_log:
  "\<exists>rs. net_log (snd (apiRequest ev meth endpoint dat ps w))
          = net_log (snd (getAccessToken ev w)) @ rs
      \<and> (rs = [] \<or> (\<exists>cfg. rs = [ApiCall cfg] \<and> http_method cfg = meth
                        \<and> url cfg = XERO_BASE_URL @ endpoint \<and> params cfg = ps
                        \<and> Inr (bearer cfg) = fst (getAccessToken ev w)
                        \<and> xero_tenant_id cfg = tenantId (store w) \<and> tenantId (store w) \<noteq> []))"
proof (cases "getAccessToken ev w")
  case (Pair r w')
  show ?thesis
  proof (cases r)
    case (Inl e)
    with Pair show ?thesis by (simp add: apiRequest_token_failure)
  next
    case (Inr t)
    show ?thesis
    proof (cases "tenantId (store w) = []")
      case True
      with Pair Inr show ?thesis by (simp add: apiRequest_no_tenant)
    next
      case False
      from apiRequest_sends [OF Pair [unfolded Inr] False, of meth endpoint dat ps]
      obtain cfg r' dt where
        "apiRequest ev meth endpoint dat ps w =
           (case r' of Inr d \<Rightarrow> Inr d | Inl e \<Rightarrow> Inl (handleApiError e), sent (ApiCall cfg) dt w')"
        "http_method cfg = meth" "url cfg = XERO_BASE_URL @ endpoint" "bearer cfg = t"
        "xero_tenant_id cfg = tenantId (store w)" "params cfg = ps"
        by blast
      with Pair Inr False show ?thesis by (simp add: sent_def)
    qed
  qed
qed

lemma getConnections_log:
  "net_log (snd (getConnections ev w))
     = net_log (snd (getAccessToken ev w))
       @ (case fst (getAccessToken ev w) of Inl e \<Rightarrow> [] | Inr t \<Rightarrow> [ConnectionsGet t])"
proof (cases "getAccessToken ev w")
  case (Pair r w')
  show ?thesis
  proof (cases r)
    case (Inl e)
    with Pair show ?thesis by (simp add: getConnections_token_failure)
  next
    case (Inr t)
    from getConnections_sends [OF Pair [unfolded Inr]] Pair Inr
    show ?thesis by (auto simp: sent_def)
  qed
qed

lemma token_posts_append [simp]: "token_posts (xs @ ys) = token_posts xs + token_posts ys"
  by (simp add: token_posts_def)

lemma resource_calls_append [simp]:
  "resource_calls (xs @ ys) = resource_calls xs + resource_calls ys"
  by (simp add: resource_calls_def)

lemma count_one [simp]:
  "token_posts [] = 0" "resource_calls [] = 0"
  "token_posts [TokenPost c g] = 1" "resource_calls [TokenPost c g] = 0"
  "token_posts [ApiCall cfg] = 0" "resource_calls [ApiCall cfg] = 1"
  "token_posts [ConnectionsGet t] = 0" "resource_calls [ConnectionsGet t] = 1"
  by (simp_all add: token_posts_def resource_calls_def)

lemma apiRequest_token_posts:
  "token_posts (net_log (snd (apiRequest ev meth endpoint dat ps w)))
     = token_posts (net_log (snd (getAccessToken ev w)))"
  using apiRequest_log [of ev meth endpoint dat ps w] by auto

lemma getConnections_token_posts:
  "token_posts (net_log (snd (getConnections ev w)))
     = token_posts (net_log (snd (getAccessToken ev w)))"
  by (simp add: getConnections_log split: sum.splits)

lemma getAccessToken_token_posts:
  "token_posts (net_log (snd (getAccessToken ev w)))
     = token_posts (net_log w)
       + (if hasValidToken (store w) (clock w) \<or> refreshToken (store w) = [] then 0 else 1)"
  by (simp add: getAccessToken_log refresh_request_def)

subsection \<open>Token resolution in the executors\<close>

text \<open>
  C1. In \<^verbatim>\<open>apiRequest\<close> and \<^verbatim>\<open>getConnections\<close>: when the stored token passes the validity
  check, the cached token is the one used and nothing is posted to the identity endpoint.
  Otherwise the token comes from one call of \<^verbatim>\<open>refreshAccessToken\<close>, which posts at most
  once (once exactly when there is a refresh token); when it fails, its error is what
  the executor ends with, it is one of the two refresh errors, and no resource request
  is sent; when it succeeds, the request carries the new token.
\<close>

theorem token_resolution:
  "(hasValidToken (store w) (clock w) \<longrightarrow>
      getAccessToken ev w = (Inr (accessToken (store w)), w)
      \<and> token_posts (net_log (snd (apiRequest ev meth endpoint dat ps w))) = token_posts (net_log w)
      \<and> token_posts (net_log (snd (getConnections ev w))) = token_posts (net_log w)
      \<and> net_log (snd (getConnections ev w)) = net_log w @ [ConnectionsGet (accessToken (store w))]
      \<and> (tenantId (store w) \<noteq> [] \<longrightarrow>
           (\<exists>cfg. net_log (snd (apiRequest ev meth endpoint dat ps w)) = net_log w @ [ApiCall cfg]
                  \<and> bearer cfg = accessToken (store w))))
   \<and> (\<not> hasValidToken (store w) (clock w) \<longrightarrow>
      getAccessToken ev w = refreshAccessToken ev w
      \<and> token_posts (net_log (snd (apiRequest ev meth endpoint dat ps w)))
          = token_posts (net_log w) + (if refreshToken (store w) = [] then 0 else 1)
      \<and> token_posts (net_log (snd (getConnections ev w)))
          = token_posts (net_log w) + (if refreshToken (store w) = [] then 0 else 1)
      \<and> (\<forall>e w'. refreshAccessToken ev w = (Inl e, w') \<longrightarrow>
            apiRequest ev meth endpoint dat ps w = (Inl e, w')
            \<and> getConnections ev w = (Inl e, w')
            \<and> resource_calls (net_log w') = resource_calls (net_log w)
            \<and> (e = Error ''No refresh token available. Please run: xero auth login''
                \<or> (\<exists>msg. e = Error (''Token refresh failed: '' @ msg))))
      \<and> (\<forall>t w'. refreshAccessToken ev w = (Inr t, w') \<longrightarrow>
            net_log (snd (getConnections ev w)) = net_log w' @ [ConnectionsGet t]
            \<and> (tenantId (store w) \<noteq> [] \<longrightarrow>
                 (\<exists>cfg. net_log (snd (apiRequest ev meth endpoint dat ps w))
                          = net_log w' @ [ApiCall cfg]
                        \<and> bearer cfg = t))))"
proof -
  have sends: "\<exists>cfg. net_log (snd (apiRequest ev meth endpoint dat ps w)) = net_log w' @ [ApiCall cfg]
                  \<and> bearer cfg = t"
    if "getAccessToken ev w = (Inr t, w')" "tenantId (store w) \<noteq> []" for t w'
    using apiRequest_sends [OF that, of meth endpoint dat ps] by (auto simp: sent_def)
  have conn: "net_log (snd (getConnections ev w)) = net_log w' @ [ConnectionsGet t]"
    if "getAccessToken ev w = (Inr t, w')" for t w'
    using getConnections_sends [OF that] by (auto simp: sent_def)
  have valid: ?thesis if v: "hasValidToken (store w) (clock w)"
    using v sends [OF getAccessToken_valid [OF v]] conn [OF getAccessToken_valid [OF v]]
    by (simp add: getAccessToken_valid apiRequest_token_posts getConnections_token_posts)
  have stale: ?thesis if v: "\<not> hasValidToken (store w) (clock w)"
  proof -
    have g: "getAccessToken ev w = refreshAccessToken ev w"
      using v by (rule getAccessToken_stale)
    have failure: "apiRequest ev meth endpoint dat ps w = (Inl e, w')
            \<and> getConnections ev w = (Inl e, w')
            \<and> resource_calls (net_log w') = resource_calls (net_log w)
            \<and> (e = Error ''No refresh token available. Please run: xero auth login''
                \<or> (\<exists>msg. e = Error (''Token refresh failed: '' @ msg)))"
      if r: "refreshAccessToken ev w = (Inl e, w')" for e w'
    proof -
      have "net_log w' = net_log w @ (if refreshToken (store w) = [] then []
                                       else [refresh_request (store w)])"
        using refresh_log [of ev w] r by simp
      then have "resource_calls (net_log w') = resource_calls (net_log w)"
        by (simp add: refresh_request_def)
      with r g refresh_failure_kind [OF r] show ?thesis
        by (simp add: apiRequest_token_failure getConnections_token_failure)
    qed
    have success: "net_log (snd (getConnections ev w)) = net_log w' @ [ConnectionsGet t]
            \<and> (tenantId (store w) \<noteq> [] \<longrightarrow>
                 (\<exists>cfg. net_log (snd (apiRequest ev meth endpoint dat ps w))
                          = net_log w' @ [ApiCall cfg]
                        \<and> bearer cfg = t))"
      if r: "refreshAccessToken ev w = (Inr t, w')" for t w'
      using sends [of t w'] conn [of t w'] r g by simp
    have posts: "token_posts (net_log (snd (apiRequest ev meth endpoint dat ps w)))
          = token_posts (net_log w) + (if refreshToken (store w) = [] then 0 else 1)"
      "token_posts (net_log (snd (getConnections ev w)))
          = token_posts (net_log w) + (if refreshToken (store w) = [] then 0 else 1)"
      using v
      by (simp_all add: apiRequest_token_posts getConnections_token_posts
          getAccessToken_token_posts)
    from v g failure success posts show ?thesis by blast
  qed
  from valid stale show ?thesis by blast
qed

lemma refresh_rejected_sample:
  "refreshAccessToken identity_rejects stale_world
     = (Inl (Error ''Token refresh failed: invalid_grant''),
        sent (refresh_request (store stale_world)) 250 stale_world)"
  by (simp add: refreshAccessToken_def identity_rejects_def stale_world_def empty_world_def
      servers_up_def no_body_def or_else_def refresh_request_def basic_credentials_def Let_def)

lemma stale_world_invalid: "\<not> hasValidToken (store stale_world) (clock stale_world)"
  by (simp add: hasValidToken_def stale_world_def empty_world_def)

lemma fresh_world_valid: "hasValidToken (store fresh_world) (clock fresh_world)"
  by (simp add: hasValidToken_def fresh_world_def empty_world_def)

theorem token_resolution_witness:
  "hasValidToken (store fresh_world) (clock fresh_world)
   \<and> getAccessToken servers_up fresh_world = (Inr ''AT0'', fresh_world)
   \<and> net_log (snd (getConnections servers_up fresh_world)) = [ConnectionsGet ''AT0'']
   \<and> tenantId (store fresh_world) \<noteq> []
   \<and> (\<exists>cfg. net_log (snd (apiRequest servers_up ''GET'' ''/Invoices'' None None fresh_world))
              = [ApiCall cfg] \<and> bearer cfg = ''AT0'')
   \<and> \<not> hasValidToken (store stale_world) (clock stale_world)
   \<and> refreshAccessToken identity_rejects stale_world
      = (Inl (Error ''Token refresh failed: invalid_grant''),
         sent (refresh_request (store stale_world)) 250 stale_world)
   \<and> apiRequest identity_rejects ''GET'' ''/Invoices'' None None stale_world
      = (Inl (Error ''Token refresh failed: invalid_grant''),
         sent (refresh_request (store stale_world)) 250 stale_world)
   \<and> resource_calls (net_log (sent (refresh_request (store stale_world)) 250 stale_world)) = 0
   \<and> token_posts (net_log (snd (apiRequest identity_rejects ''GET'' ''/Invoices'' None None
                                   stale_world))) = 1
   \<and> refreshAccessToken servers_up stale_world = (Inr ''AT1'', refreshed_world)
   \<and> net_log (snd (getConnections servers_up stale_world))
      = net_log refreshed_world @ [ConnectionsGet ''AT1'']"
proof -
  note valid = token_resolution [of fresh_world servers_up "''GET''" "''/Invoices''" None None]
  note failing = token_resolution [of stale_world identity_rejects "''GET''" "''/Invoices''"
      None None]
  note renewing = token_resolution [of stale_world servers_up "''GET''" "''/Invoices''"
      None None]
  have t: "tenantId (store fresh_world) \<noteq> []" "accessToken (store fresh_world) = ''AT0''"
    "net_log fresh_world = []" "net_log stale_world = []" "refreshToken (store stale_world) \<noteq> []"
    by (simp_all add: fresh_world_def stale_world_def empty_world_def)
  have a: "getAccessToken servers_up fresh_world = (Inr ''AT0'', fresh_world)
   \<and> net_log (snd (getConnections servers_up fresh_world)) = [ConnectionsGet ''AT0'']
   \<and> (\<exists>cfg. net_log (snd (apiRequest servers_up ''GET'' ''/Invoices'' None None fresh_world))
              = [ApiCall cfg] \<and> bearer cfg = ''AT0'')"
    using valid fresh_world_valid t by simp
  have b: "apiRequest identity_rejects ''GET'' ''/Invoices'' None None stale_world
      = (Inl (Error ''Token refresh failed: invalid_grant''),
         sent (refresh_request (store stale_world)) 250 stale_world)
   \<and> resource_calls (net_log (sent (refresh_request (store stale_world)) 250 stale_world)) = 0
   \<and> token_posts (net_log (snd (apiRequest identity_rejects ''GET'' ''/Invoices'' None None
                                   stale_world))) = 1"
    using failing stale_world_invalid refresh_rejected_sample t
    by (auto simp: sent_def refresh_request_def)
  have c: "net_log (snd (getConnections servers_up stale_world))
      = net_log refreshed_world @ [ConnectionsGet ''AT1'']"
    using renewing stale_world_invalid refresh_sample by simp
  from a b c fresh_world_valid stale_world_invalid refresh_rejected_sample refresh_sample t
  show ?thesis by blast
qed

subsection \<open>Resource operations go through \<^verbatim>\<open>apiRequest\<close>\<close>

lemma unwrap_world [simp]:
  "snd (unwrap_list k r) = snd r" "snd (unwrap_first k r) = snd r"
  by (auto simp: unwrap_list_def unwrap_first_def split: prod.splits sum.splits)

lemma unwrap_failure [simp]:
  "unwrap_list k (Inl e, w) = (Inl e, w)" "unwrap_first k (Inl e, w) = (Inl e, w)"
  by (simp_all add: unwrap_list_def unwrap_first_def)

lemmas op_defs = listInvoices_def getInvoice_def createInvoice_def listContacts_def
  getContact_def createContact_def listAccounts_def listPayments_def listBankTransactions_def

lemma run_op_failure:
  assumes "\<And>meth endpoint dat ps. apiRequest ev meth endpoint dat ps w = (Inl e, w')"
  shows "run_op ev op w = (Inl e, w')"
  by (cases op) (simp_all add: op_defs assms Let_def)

lemma run_op_log:
  "\<exists>meth endpoint dat ps.
     net_log (snd (run_op ev op w)) = net_log (snd (apiRequest ev meth endpoint dat ps w))"
  by (cases op) (auto simp: op_defs Let_def)

lemma apiRequest_resource_calls_no_tenant:
  assumes "tenantId (store w) = []"
  shows "resource_calls (net_log (snd (apiRequest ev meth endpoint dat ps w)))
         = resource_calls (net_log w)"
proof -
  from apiRequest_log [of ev meth endpoint dat ps w] assms
  have "net_log (snd (apiRequest ev meth endpoint dat ps w)) = net_log (snd (getAccessToken ev w))"
    by auto
  then show ?thesis by (simp add: getAccessToken_log refresh_request_def)
qed

subsection \<open>No tenant\<close>

text \<open>
  With a stale token and no tenant, the refresh is sent before the tenant is looked at.
\<close>

theorem refresh_precedes_tenant_check:
  "tenantId (store stale_no_tenant_world) = []
   \<and> apiRequest servers_up ''GET'' ''/Invoices'' None None stale_no_tenant_world
     = (Inl (Error ''No tenant ID configured. Please run: xero auth login''),
        refreshed_no_tenant_world)
   \<and> net_log stale_no_tenant_world = []
   \<and> net_log refreshed_no_tenant_world = [TokenPost ''id:secret'' (refresh_token_grant ''R1'')]"
  by (simp add: apiRequest_def getAccessToken_def hasValidToken_def refreshAccessToken_def
      stale_no_tenant_world_def stale_world_def empty_world_def servers_up_def sample_tokens_def
      sent_def Let_def refreshed_no_tenant_world_def refreshed_world_def write_defs)

text \<open>
  C5, as the code has it. With an empty \<open>tenantId\<close> no resource request is ever sent, by
  any resource operation. With a valid cached token the operation ends with the
  \<open>No tenant ID configured\<close> error and nothing at all is sent. With a stale token the
  refresh comes first: when it fails the operation ends with the refresh error, and when
  it succeeds, after its one request to the identity endpoint, the operation ends with
  the \<open>No tenant ID configured\<close> error.
\<close>

theorem missing_tenant:
  "tenantId (store w) = [] \<longrightarrow>
     resource_calls (net_log (snd (run_op ev op w))) = resource_calls (net_log w)
     \<and> resource_calls (net_log (snd (apiRequest ev meth endpoint dat ps w)))
         = resource_calls (net_log w)
     \<and> (hasValidToken (store w) (clock w) \<longrightarrow>
          run_op ev op w
            = (Inl (Error ''No tenant ID configured. Please run: xero auth login''), w)
          \<and> apiRequest ev meth endpoint dat ps w
            = (Inl (Error ''No tenant ID configured. Please run: xero auth login''), w))
     \<and> (\<not> hasValidToken (store w) (clock w) \<longrightarrow>
          (\<forall>e w'. refreshAccessToken ev w = (Inl e, w') \<longrightarrow> run_op ev op w = (Inl e, w'))
          \<and> (\<forall>t w'. refreshAccessToken ev w = (Inr t, w') \<longrightarrow>
                run_op ev op w
                  = (Inl (Error ''No tenant ID configured. Please run: xero auth login''), w')
                \<and> net_log w' = net_log w @ [refresh_request (store w)]))"
proof (rule impI)
  assume nt: "tenantId (store w) = []"
  have calls: "resource_calls (net_log (snd (run_op ev op w))) = resource_calls (net_log w)"
    using run_op_log [of ev op w] apiRequest_resource_calls_no_tenant [OF nt] by auto
  have valid: "run_op ev op w
            = (Inl (Error ''No tenant ID configured. Please run: xero auth login''), w)
          \<and> apiRequest ev meth endpoint dat ps w
            = (Inl (Error ''No tenant ID configured. Please run: xero auth login''), w)"
    if v: "hasValidToken (store w) (clock w)"
    using apiRequest_no_tenant [OF getAccessToken_valid [OF v] nt]
    by (simp add: run_op_failure)
  have failure: "run_op ev op w = (Inl e, w')"
    if v: "\<not> hasValidToken (store w) (clock w)" and r: "refreshAccessToken ev w = (Inl e, w')"
    for e w'
    using apiRequest_token_failure [of ev w e w'] r getAccessToken_stale [OF v]
    by (simp add: run_op_failure)
  have success: "run_op ev op w
                  = (Inl (Error ''No tenant ID configured. Please run: xero auth login''), w')
                \<and> net_log w' = net_log w @ [refresh_request (store w)]"
    if v: "\<not> hasValidToken (store w) (clock w)" and r: "refreshAccessToken ev w = (Inr t, w')"
    for t w'
  proof -
    have g: "getAccessToken ev w = (Inr t, w')"
      using r getAccessToken_stale [OF v] by simp
    have "refreshToken (store w) \<noteq> []"
      using r by (auto simp: refresh_without_token)
    then have "net_log w' = net_log w @ [refresh_request (store w)]"
      using refresh_log [of ev w] r by simp
    with apiRequest_no_tenant [OF g nt] show ?thesis by (simp add: run_op_failure)
  qed
  from calls apiRequest_resource_calls_no_tenant [OF nt] valid failure success
  show "resource_calls (net_log (snd (run_op ev op w))) = resource_calls (net_log w)
     \<and> resource_calls (net_log (snd (apiRequest ev meth endpoint dat ps w)))
         = resource_calls (net_log w)
     \<and> (hasValidToken (store w) (clock w) \<longrightarrow>
          run_op ev op w
            = (Inl (Error ''No tenant ID configured. Please run: xero auth login''), w)
          \<and> apiRequest ev meth endpoint dat ps w
            = (Inl (Error ''No tenant ID configured. Please run: xero auth login''), w))
     \<and> (\<not> hasValidToken (store w) (clock w) \<longrightarrow>
          (\<forall>e w'. refreshAccessToken ev w = (Inl e, w') \<longrightarrow> run_op ev op w = (Inl e, w'))
          \<and> (\<forall>t w'. refreshAccessToken ev w = (Inr t, w') \<longrightarrow>
                run_op ev op w
                  = (Inl (Error ''No tenant ID configured. Please run: xero auth login''), w')
                \<and> net_log w' = net_log w @ [refresh_request (store w)]))"
    by blast
qed

theorem missing_tenant_witness:
  "tenantId (store (fresh_world\<lparr>store := (store fresh_world)\<lparr>tenantId := []\<rparr>\<rparr>)) = []
   \<and> hasValidToken (store (fresh_world\<lparr>store := (store fresh_world)\<lparr>tenantId := []\<rparr>\<rparr>))
        (clock (fresh_world\<lparr>store := (store fresh_world)\<lparr>tenantId := []\<rparr>\<rparr>))
   \<and> run_op servers_up (ListInvoices None None)
        (fresh_world\<lparr>store := (store fresh_world)\<lparr>tenantId := []\<rparr>\<rparr>)
     = (Inl (Error ''No tenant ID configured. Please run: xero auth login''),
        fresh_world\<lparr>store := (store fresh_world)\<lparr>tenantId := []\<rparr>\<rparr>)
   \<and> tenantId (store stale_no_tenant_world) = []
   \<and> \<not> hasValidToken (store stale_no_tenant_world) (clock stale_no_tenant_world)
   \<and> refreshAccessToken servers_up stale_no_tenant_world = (Inr ''AT1'', refreshed_no_tenant_world)
   \<and> run_op servers_up (GetContact ''c1'') stale_no_tenant_world
     = (Inl (Error ''No tenant ID configured. Please run: xero auth login''),
        refreshed_no_tenant_world)
   \<and> refreshAccessToken identity_rejects stale_no_tenant_world
     = (Inl (Error ''Token refresh failed: invalid_grant''),
        sent (refresh_request (store stale_no_tenant_world)) 250 stale_no_tenant_world)
   \<and> run_op identity_rejects ListPayments stale_no_tenant_world
     = (Inl (Error ''Token refresh failed: invalid_grant''),
        sent (refresh_request (store stale_no_tenant_world)) 250 stale_no_tenant_world)"
proof -
  let ?fresh = "fresh_world\<lparr>store := (store fresh_world)\<lparr>tenantId := []\<rparr>\<rparr>"
  have f: "tenantId (store ?fresh) = []" "hasValidToken (store ?fresh) (clock ?fresh)"
    by (simp_all add: fresh_world_def empty_world_def hasValidToken_def)
  have s: "tenantId (store stale_no_tenant_world) = []"
    "\<not> hasValidToken (store stale_no_tenant_world) (clock stale_no_tenant_world)"
    by (simp_all add: stale_no_tenant_world_def stale_world_def empty_world_def hasValidToken_def)
  have r1: "refreshAccessToken servers_up stale_no_tenant_world
              = (Inr ''AT1'', refreshed_no_tenant_world)"
    by (simp add: refreshAccessToken_def servers_up_def stale_no_tenant_world_def stale_world_def
        empty_world_def sample_tokens_def sent_def Let_def refreshed_no_tenant_world_def
        refreshed_world_def write_defs)
  have r2: "refreshAccessToken identity_rejects stale_no_tenant_world
     = (Inl (Error ''Token refresh failed: invalid_grant''),
        sent (refresh_request (store stale_no_tenant_world)) 250 stale_no_tenant_world)"
    by (simp add: refreshAccessToken_def identity_rejects_def stale_no_tenant_world_def
        stale_world_def empty_world_def servers_up_def no_body_def or_else_def
        refresh_request_def basic_credentials_def Let_def)
  have a: "run_op servers_up (ListInvoices None None) ?fresh
     = (Inl (Error ''No tenant ID configured. Please run: xero auth login''), ?fresh)"
    using missing_tenant [of ?fresh servers_up "ListInvoices None None" "''GET''" "''/Invoices''"
        None None] f by blast
  have b: "run_op servers_up (GetContact ''c1'') stale_no_tenant_world
     = (Inl (Error ''No tenant ID configured. Please run: xero auth login''),
        refreshed_no_tenant_world)"
    using missing_tenant [of stale_no_tenant_world servers_up "GetContact ''c1''" "''GET''"
        "''/Invoices''" None None] s r1 by blast
  have c: "run_op identity_rejects ListPayments stale_no_tenant_world
     = (Inl (Error ''Token refresh failed: invalid_grant''),
        sent (refresh_request (store stale_no_tenant_world)) 250 stale_no_tenant_world)"
    using missing_tenant [of stale_no_tenant_world identity_rejects ListPayments "''GET''"
        "''/Invoices''" None None] s r2 by blast
  from f s r1 r2 a b c show ?thesis by blast
qed

subsection \<open>Classifying failures\<close>

lemma or_else_present: "or_else v d = (if present v then the v else d)"
  by (simp add: or_else_def present_def split: option.splits)

text \<open>
  C6. A failed response is classified by its status: 401, 403, 404 and 429 each have
  their own error (429 tells to wait before retrying, 401 to log in again); any other
  status gives an API error with the status and the first of \<open>Detail\<close>, \<open>Message\<close>,
  \<open>message\<close> that is there and not empty, else the serialized body; a request without a
  response gives the network error. Both executors end with this classification of
  whatever their request was rejected with.
\<close>

theorem error_classification:
  "handleApiError (HttpError 401 d m)
     = Error ''Authentication failed. Your token may have expired. Run: xero auth login''
   \<and> handleApiError (HttpError 403 d m) = Error ''Access forbidden. Check your API permissions.''
   \<and> handleApiError (HttpError 404 d m) = Error ''Resource not found.''
   \<and> handleApiError (HttpError 429 d m)
     = Error ''Rate limit exceeded. Please wait before retrying.''
   \<and> (status \<notin> {401, 403, 404, 429} \<longrightarrow>
        handleApiError (HttpError status d m)
          = Error (''API Error ('' @ show_nat status @ ''): ''
                   @ (if present (Detail d) then the (Detail d)
                      else if present (Message d) then the (Message d)
                      else if present (message d) then the (message d)
                      else raw d)))
   \<and> handleApiError (NoResponse m)
     = Error ''No response from Xero API. Check your internet connection.''
   \<and> (getAccessToken ev w = (Inr t, w') \<and> tenantId (store w) \<noteq> [] \<longrightarrow>
        (\<exists>cfg r dt. resources ev cfg = (r, dt) \<and> bearer cfg = t
           \<and> fst (apiRequest ev meth endpoint dat ps w)
             = (case r of Inr j \<Rightarrow> Inr j | Inl e \<Rightarrow> Inl (handleApiError e))))
   \<and> (getAccessToken ev w = (Inr t, w') \<longrightarrow>
        (\<exists>r dt. connections ev t = (r, dt)
           \<and> fst (getConnections ev w)
             = (case r of Inr j \<Rightarrow> Inr j | Inl e \<Rightarrow> Inl (handleApiError e))))"
proof -
  have api: "\<exists>cfg r dt. resources ev cfg = (r, dt) \<and> bearer cfg = t
           \<and> fst (apiRequest ev meth endpoint dat ps w)
             = (case r of Inr j \<Rightarrow> Inr j | Inl e \<Rightarrow> Inl (handleApiError e))"
    if "getAccessToken ev w = (Inr t, w')" "tenantId (store w) \<noteq> []"
    using apiRequest_sends [OF that, of meth endpoint dat ps] by force
  have conn: "\<exists>r dt. connections ev t = (r, dt)
           \<and> fst (getConnections ev w)
             = (case r of Inr j \<Rightarrow> Inr j | Inl e \<Rightarrow> Inl (handleApiError e))"
    if "getAccessToken ev w = (Inr t, w')"
    using getConnections_sends [OF that] by force
  have other: "handleApiError (HttpError status d m)
          = Error (''API Error ('' @ show_nat status @ ''): ''
                   @ (if present (Detail d) then the (Detail d)
                      else if present (Message d) then the (Message d)
                      else if present (message d) then the (message d)
                      else raw d))"
    if "status \<notin> {401, 403, 404, 429}"
    using that by (simp add: or_else_present)
  from api conn other show ?thesis by simp
qed

theorem error_classification_witness:
  "(500::nat) \<notin> {401, 403, 404, 429}
   \<and> handleApiError (HttpError 500 boom_body ''Request failed with status code 500'')
     = Error ''API Error (500): boom''
   \<and> (502::nat) \<notin> {401, 403, 404, 429}
   \<and> handleApiError (HttpError 502 no_body ''Request failed with status code 502'')
     = Error ''API Error (502): {}''
   \<and> getAccessToken rate_limited fresh_world = (Inr ''AT0'', fresh_world)
   \<and> tenantId (store fresh_world) \<noteq> []
   \<and> fst (apiRequest rate_limited ''GET'' ''/Invoices'' None None fresh_world)
     = Inl (Error ''Rate limit exceeded. Please wait before retrying.'')
   \<and> fst (getConnections rate_limited fresh_world)
     = Inr [\<lparr>conn_tenantId = ''T1'', conn_tenantName = ''Org''\<rparr>]"
proof -
  have g: "getAccessToken rate_limited fresh_world = (Inr ''AT0'', fresh_world)"
    using getAccessToken_valid [OF fresh_world_valid, of rate_limited]
    by (simp add: fresh_world_def empty_world_def)
  have t: "tenantId (store fresh_world) \<noteq> []"
    by (simp add: fresh_world_def empty_world_def)
  have a: "handleApiError (HttpError 500 boom_body ''Request failed with status code 500'')
     = Error ''API Error (500): boom''"
    using error_classification [of boom_body "''Request failed with status code 500''" 500
        rate_limited fresh_world "''AT0''" fresh_world
        "''GET''" "''/Invoices''" None None]
    by (simp add: boom_body_def no_body_def present_def show_nat.simps digit_char_def)
  have b: "handleApiError (HttpError 502 no_body ''Request failed with status code 502'')
     = Error ''API Error (502): {}''"
    using error_classification [of no_body "''Request failed with status code 502''" 502
        rate_limited fresh_world "''AT0''" fresh_world
        "''GET''" "''/Invoices''" None None]
    by (simp add: no_body_def present_def show_nat.simps digit_char_def)
  have c: "fst (apiRequest rate_limited ''GET'' ''/Invoices'' None None fresh_world)
     = Inl (Error ''Rate limit exceeded. Please wait before retrying.'')
   \<and> fst (getConnections rate_limited fresh_world)
     = Inr [\<lparr>conn_tenantId = ''T1'', conn_tenantName = ''Org''\<rparr>]"
    using error_classification [of no_body "''Request failed with status code 502''" 502
        rate_limited fresh_world "''AT0''" fresh_world
        "''GET''" "''/Invoices''" None None] g t
    by (auto simp: rate_limited_def servers_up_def)
  from a b c g t show ?thesis by simp
qed

subsection \<open>The page size of \<^verbatim>\<open>listInvoices\<close>\<close>

lemma listInvoices_log:
  "net_log (snd (listInvoices ev status limit w))
     = net_log (snd (apiRequest ev ''GET'' ''/Invoices'' None
                       (Some (listInvoices_params status limit)) w))"
  by (simp add: listInvoices_def)

lemma page_param: "map_of (listInvoices_params status limit) ''page'' = Some (JNum 1)"
  by (simp add: listInvoices_params_def)

lemma pageSize_param:
  "map_of (listInvoices_params status limit) ''pageSize''
     = (case (case limit of None \<Rightarrow> Num 50 | Some l \<Rightarrow> l) of
          Num n \<Rightarrow> if n \<noteq> 0 then Some (JNum (min n 100)) else None
        | NaN \<Rightarrow> None)"
  by (simp add: listInvoices_params_def opt_member_def map_add_def
      split: option.splits jsnum.splits)

text \<open>
  C10. \<^verbatim>\<open>listInvoices\<close> asks for page 1, and the \<open>pageSize\<close> it sends is
  \<open>min limit 100\<close> when the limit is truthy (the limit being 50 when none is given): no
  page size above 100 is ever sent. A limit of 0 or \<^verbatim>\<open>NaN\<close> sends no page size. The
  request that reaches the API carries exactly these parameters.
\<close>

theorem listInvoices_page_size:
  "map_of (listInvoices_params status limit) ''page'' = Some (JNum 1)
   \<and> (n \<noteq> 0 \<longrightarrow>
        map_of (listInvoices_params status (Some (Num n))) ''pageSize'' = Some (JNum (min n 100)))
   \<and> map_of (listInvoices_params status None) ''pageSize'' = Some (JNum 50)
   \<and> map_of (listInvoices_params status (Some (Num 0))) ''pageSize'' = None
   \<and> map_of (listInvoices_params status (Some NaN)) ''pageSize'' = None
   \<and> (\<forall>v. map_of (listInvoices_params status limit) ''pageSize'' = Some v \<longrightarrow>
          (\<exists>k. v = JNum k \<and> k \<le> 100))
   \<and> (\<forall>cfg. ApiCall cfg \<in> set (net_log (snd (listInvoices ev status limit w)))
             \<and> ApiCall cfg \<notin> set (net_log w) \<longrightarrow>
          http_method cfg = ''GET'' \<and> url cfg = XERO_BASE_URL @ ''/Invoices''
          \<and> params cfg = Some (listInvoices_params status limit))"
proof -
  have sent_params: "http_method cfg = ''GET'' \<and> url cfg = XERO_BASE_URL @ ''/Invoices''
          \<and> params cfg = Some (listInvoices_params status limit)"
    if "ApiCall cfg \<in> set (net_log (snd (listInvoices ev status limit w)))"
      "ApiCall cfg \<notin> set (net_log w)" for cfg
  proof -
    from apiRequest_log [of ev "''GET''" "''/Invoices''" None
        "Some (listInvoices_params status limit)" w]
    obtain rs where rs: "net_log (snd (listInvoices ev status limit w))
          = net_log (snd (getAccessToken ev w)) @ rs"
      "rs = [] \<or> (\<exists>c. rs = [ApiCall c] \<and> http_method c = ''GET''
                        \<and> url c = XERO_BASE_URL @ ''/Invoices''
                        \<and> params c = Some (listInvoices_params status limit))"
      unfolding listInvoices_log by blast
    have "ApiCall cfg \<notin> set (net_log (snd (getAccessToken ev w)))"
      using that(2) by (simp add: getAccessToken_log refresh_request_def)
    with that(1) rs show ?thesis by auto
  qed
  have bound: "\<exists>k. v = JNum k \<and> k \<le> 100"
    if "map_of (listInvoices_params status limit) ''pageSize'' = Some v" for v
    using that by (auto simp: pageSize_param split: option.splits jsnum.splits if_splits)
  from sent_params bound show ?thesis
    by (simp add: page_param pageSize_param)
qed

theorem listInvoices_page_size_witness:
  "(500::int) \<noteq> 0
   \<and> map_of (listInvoices_params (Some ''PAID'') (Some (Num 500))) ''pageSize'' = Some (JNum 100)
   \<and> map_of (listInvoices_params None (Some (Num 20))) ''pageSize'' = Some (JNum 20)
   \<and> net_log (snd (listInvoices servers_up (Some ''PAID'') (Some (Num 500)) fresh_world))
     = [ApiCall \<lparr>http_method = ''GET'', url = ''https://api.xero.com/api.xro/2.0/Invoices'',
                 bearer = ''AT0'', xero_tenant_id = ''T1'',
                 params = Some [(''page'', JNum 1), (''Statuses'', JStr ''PAID''),
                                (''pageSize'', JNum 100)],
                 data = None\<rparr>]
   \<and> net_log fresh_world = []"
proof -
  have l: "net_log (snd (listInvoices servers_up (Some ''PAID'') (Some (Num 500)) fresh_world))
     = [ApiCall \<lparr>http_method = ''GET'', url = ''https://api.xero.com/api.xro/2.0/Invoices'',
                 bearer = ''AT0'', xero_tenant_id = ''T1'',
                 params = Some [(''page'', JNum 1), (''Statuses'', JStr ''PAID''),
                                (''pageSize'', JNum 100)],
                 data = None\<rparr>]"
    by (simp add: listInvoices_def apiRequest_def getAccessToken_def hasValidToken_def
        fresh_world_def empty_world_def servers_up_def sent_def Let_def XERO_BASE_URL_def
        listInvoices_params_def opt_member_def)
  have n: "net_log fresh_world = []"
    by (simp add: fresh_world_def empty_world_def)
  from listInvoices_page_size [of "Some ''PAID''" "Some (Num 500)" 500 servers_up fresh_world]
    listInvoices_page_size [of None "Some (Num 20)" 20 servers_up fresh_world] l n
  show ?thesis by simp
qed

subsection \<open>The callback listener\<close>

lemma redirectUri_8765: "redirectUri 8765 = ''http://localhost:8765/callback''"
  by (simp add: redirectUri_def show_nat.simps digit_char_def)

lemma closed_listener_ignores:
  "\<not> listening l \<Longrightarrow> serve ev port req (l, w) = (None, l, w)"
  by (simp add: serve_def)

lemma closed_listener_ignores_all:
  "\<not> listening l \<Longrightarrow> serve_all ev port reqs (l, w) = (replicate (length reqs) None, l, w)"
  by (induction reqs) (simp_all add: closed_listener_ignores)

lemma handler_closes_or_stays:
  assumes "callback_handler ev port req (start_listener, w) = (resp, l', w')"
  shows "(outcome l' \<noteq> Pending) = (\<not> listening l')"
  using assms
  by (auto simp: callback_handler_def start_listener_def settle_def close_server_def Let_def
      split: if_splits prod.splits sum.splits)

lemma handler_exchanges:
  assumes "pathname req = ''/callback''" "\<not> present (query_error req)"
    "query_code req = Some c" "c \<noteq> []"
  shows "callback_handler ev port req (start_listener, w) =
    (case exchangeCodeForTokens ev c (redirectUri port) w of
       (Inl err, w1) \<Rightarrow>
         (\<lparr>status_code = 500,
           content = ''<h1>Authentication Failed</h1><p>'' @ error_message err @ ''</p>''\<rparr>,
          \<lparr>listening = False, outcome = Rejected err\<rparr>, w1)
     | (Inr tokens, w1) \<Rightarrow>
         (case getConnections ev w1 of
            (Inl err, w2) \<Rightarrow>
              (\<lparr>status_code = 500,
                content = ''<h1>Authentication Failed</h1><p>'' @ error_message err @ ''</p>''\<rparr>,
               \<lparr>listening = False, outcome = Rejected err\<rparr>, w2)
          | (Inr conns, w2) \<Rightarrow>
              (\<lparr>status_code = 200,
                content = ''<h1>Authentication Successful!</h1><p>You can close this tab and return to your terminal.</p>''\<rparr>,
               \<lparr>listening = False, outcome = Resolved\<rparr>,
               (case conns of [] \<Rightarrow> w2
                | tenant # rest \<Rightarrow> w2\<lparr>store := (store w2)\<lparr>tenantId := conn_tenantId tenant\<rparr>\<rparr>))))"
  using assms
  by (simp add: callback_handler_def start_listener_def settle_def close_server_def Let_def
      present_def split: prod.splits sum.splits)

text \<open>
  A callback with a code, when the identity endpoint rejects the exchange: the listener
  fails.
\<close>

theorem code_callback_fails_with_exchange:
  "serve identity_rejects 8765 code_callback (start_listener, configured_world)
   = (Some \<lparr>status_code = 500,
            content = ''<h1>Authentication Failed</h1><p>Token exchange failed: invalid_grant</p>''\<rparr>,
      \<lparr>listening = False,
       outcome = Rejected (Error ''Token exchange failed: invalid_grant'')\<rparr>,
      sent (TokenPost ''id:secret''
              (authorization_code_grant ''abc123'' ''http://localhost:8765/callback''))
        250 configured_world)
   \<and> pathname code_callback = ''/callback'' \<and> query_code code_callback = Some ''abc123''
   \<and> Rejected (Error ''Token exchange failed: invalid_grant'') \<noteq> Resolved"
  by (simp add: serve_def callback_handler_def start_listener_def code_callback_def present_def
      redirectUri_8765 exchangeCodeForTokens_def identity_rejects_def servers_up_def
      configured_world_def empty_world_def default_config_def no_body_def or_else_def
      settle_def close_server_def sent_def Let_def)

text \<open>
  C4, as the code has it. While it listens, with its promise pending:
  a request to \<open>/callback\<close> with a non-empty \<open>error\<close> parameter is answered 400, closes the
  listener and fails it with \<open>OAuth error: \<close> followed by that error;
  a request to any other path is answered 404 and leaves the listener listening;
  a request to \<open>/callback\<close> with a non-empty \<open>code\<close> and no \<open>error\<close> hands the code to the
  token exchange, and the listener is completed (200) only when that exchange and the
  connections request after it both succeed, and failed (500) with their error
  otherwise, closed in both cases.
  After any request the listener is closed exactly when its promise is settled, and a
  closed listener takes no request at all.
\<close>

theorem callback_listener_one_shot:
  "(pathname req = ''/callback'' \<and> query_error req = Some e \<and> e \<noteq> [] \<longrightarrow>
      serve ev port req (start_listener, w)
        = (Some \<lparr>status_code = 400,
                 content = ''<h1>Authentication Failed</h1><p>Error: '' @ e @ ''</p>''\<rparr>,
           \<lparr>listening = False, outcome = Rejected (Error (''OAuth error: '' @ e))\<rparr>, w))
   \<and> (pathname req \<noteq> ''/callback'' \<longrightarrow>
      serve ev port req (start_listener, w)
        = (Some \<lparr>status_code = 404, content = ''Not found''\<rparr>, start_listener, w))
   \<and> (pathname req = ''/callback'' \<and> \<not> present (query_error req)
       \<and> query_code req = Some c \<and> c \<noteq> [] \<longrightarrow>
      (\<exists>resp l' w'. serve ev port req (start_listener, w) = (Some resp, l', w')
         \<and> \<not> listening l'
         \<and> (case exchangeCodeForTokens ev c (redirectUri port) w of
              (Inl err, w1) \<Rightarrow>
                outcome l' = Rejected err \<and> status_code resp = 500 \<and> w' = w1
            | (Inr tokens, w1) \<Rightarrow>
                (case getConnections ev w1 of
                   (Inl err, w2) \<Rightarrow>
                     outcome l' = Rejected err \<and> status_code resp = 500 \<and> w' = w2
                 | (Inr conns, w2) \<Rightarrow>
                     outcome l' = Resolved \<and> status_code resp = 200))))
   \<and> (\<forall>resp l' w'. serve ev port req (start_listener, w) = (resp, l', w') \<longrightarrow>
          (outcome l' \<noteq> Pending) = (\<not> listening l'))
   \<and> (\<not> listening l \<longrightarrow>
        serve_all ev port reqs (l, w) = (replicate (length reqs) None, l, w))"
proof -
  have err: "serve ev port req (start_listener, w)
        = (Some \<lparr>status_code = 400,
                 content = ''<h1>Authentication Failed</h1><p>Error: '' @ e @ ''</p>''\<rparr>,
           \<lparr>listening = False, outcome = Rejected (Error (''OAuth error: '' @ e))\<rparr>, w)"
    if "pathname req = ''/callback''" "query_error req = Some e" "e \<noteq> []"
    using that
    by (simp add: serve_def callback_handler_def start_listener_def present_def settle_def
        close_server_def)
  have other: "serve ev port req (start_listener, w)
        = (Some \<lparr>status_code = 404, content = ''Not found''\<rparr>, start_listener, w)"
    if "pathname req \<noteq> ''/callback''"
    using that by (simp add: serve_def callback_handler_def start_listener_def)
  have code: "\<exists>resp l' w'. serve ev port req (start_listener, w) = (Some resp, l', w')
         \<and> \<not> listening l'
         \<and> (case exchangeCodeForTokens ev c (redirectUri port) w of
              (Inl err, w1) \<Rightarrow>
                outcome l' = Rejected err \<and> status_code resp = 500 \<and> w' = w1
            | (Inr tokens, w1) \<Rightarrow>
                (case getConnections ev w1 of
                   (Inl err, w2) \<Rightarrow>
                     outcome l' = Rejected err \<and> status_code resp = 500 \<and> w' = w2
                 | (Inr conns, w2) \<Rightarrow>
                     outcome l' = Resolved \<and> status_code resp = 200))"
    if "pathname req = ''/callback''" "\<not> present (query_error req)"
      "query_code req = Some c" "c \<noteq> []"
    using handler_exchanges [OF that, of ev port w]
    by (auto simp: serve_def start_listener_def split: prod.splits sum.splits)
  have closes: "(outcome l' \<noteq> Pending) = (\<not> listening l')"
    if "serve ev port req (start_listener, w) = (resp, l', w')" for resp l' w'
  proof (cases "callback_handler ev port req (start_listener, w)")
    case (fields r la wa)
    from handler_closes_or_stays [OF fields] that fields show ?thesis
      by (simp add: serve_def start_listener_def)
  qed
  from err other code closes closed_listener_ignores_all [of l ev port reqs w]
  show ?thesis by blast
qed

lemma login_sample:
  "exchangeCodeForTokens servers_up ''abc123'' (redirectUri 8765) configured_world
   = (Inr sample_tokens,
      logged_in_world\<lparr>net_log := [TokenPost ''id:secret''
         (authorization_code_grant ''abc123'' ''http://localhost:8765/callback'')]\<rparr>)"
  by (simp add: exchangeCodeForTokens_def servers_up_def configured_world_def empty_world_def
      default_config_def sample_tokens_def sent_def Let_def logged_in_world_def redirectUri_8765
      write_defs)

lemma connections_sample:
  "fst (getConnections servers_up
     (logged_in_world\<lparr>net_log := [TokenPost ''id:secret''
         (authorization_code_grant ''abc123'' ''http://localhost:8765/callback'')]\<rparr>))
   = Inr [\<lparr>conn_tenantId = ''T1'', conn_tenantName = ''Org''\<rparr>]"
  by (simp add: getConnections_def getAccessToken_def hasValidToken_def logged_in_world_def
      servers_up_def Let_def)

theorem callback_listener_one_shot_witness:
  "pathname error_callback = ''/callback'' \<and> query_error error_callback = Some ''access_denied''
   \<and> serve servers_up 8765 error_callback (start_listener, configured_world)
     = (Some \<lparr>status_code = 400,
              content = ''<h1>Authentication Failed</h1><p>Error: access_denied</p>''\<rparr>,
        \<lparr>listening = False, outcome = Rejected (Error ''OAuth error: access_denied'')\<rparr>,
        configured_world)
   \<and> pathname stray_request \<noteq> ''/callback''
   \<and> serve servers_up 8765 stray_request (start_listener, configured_world)
     = (Some \<lparr>status_code = 404, content = ''Not found''\<rparr>, start_listener, configured_world)
   \<and> pathname code_callback = ''/callback'' \<and> \<not> present (query_error code_callback)
   \<and> query_code code_callback = Some ''abc123''
   \<and> (\<exists>resp l' w'. serve servers_up 8765 code_callback (start_listener, configured_world)
                      = (Some resp, l', w')
         \<and> \<not> listening l' \<and> outcome l' = Resolved \<and> status_code resp = 200)
   \<and> \<not> listening \<lparr>listening = False, outcome = Resolved\<rparr>
   \<and> serve_all servers_up 8765 [code_callback, stray_request]
        (\<lparr>listening = False, outcome = Resolved\<rparr>, logged_in_world)
     = ([None, None], \<lparr>listening = False, outcome = Resolved\<rparr>, logged_in_world)"
proof -
  note inst = callback_listener_one_shot [where ev = servers_up and port = 8765
      and w = configured_world and l = "\<lparr>listening = False, outcome = Resolved\<rparr>"
      and reqs = "[code_callback, stray_request]"]
  have e: "pathname error_callback = ''/callback''"
    "query_error error_callback = Some ''access_denied''"
    by (simp_all add: error_callback_def)
  have s: "pathname stray_request \<noteq> ''/callback''"
    by (simp add: stray_request_def)
  have c: "pathname code_callback = ''/callback''" "\<not> present (query_error code_callback)"
    "query_code code_callback = Some ''abc123''"
    by (simp_all add: code_callback_def present_def)
  have a1: "serve servers_up 8765 error_callback (start_listener, configured_world)
     = (Some \<lparr>status_code = 400,
              content = ''<h1>Authentication Failed</h1><p>Error: access_denied</p>''\<rparr>,
        \<lparr>listening = False, outcome = Rejected (Error ''OAuth error: access_denied'')\<rparr>,
        configured_world)"
    using inst [where req = error_callback and e = "''access_denied''" and c = "''abc123''"] e
    by simp
  have a2: "serve servers_up 8765 stray_request (start_listener, configured_world)
     = (Some \<lparr>status_code = 404, content = ''Not found''\<rparr>, start_listener, configured_world)"
    using inst [where req = stray_request and e = "''access_denied''" and c = "''abc123''"] s
    by simp
  have a3: "\<exists>resp l' w'. serve servers_up 8765 code_callback (start_listener, configured_world)
                      = (Some resp, l', w')
         \<and> \<not> listening l' \<and> outcome l' = Resolved \<and> status_code resp = 200"
  proof -
    from inst [where req = code_callback and e = "''access_denied''" and c = "''abc123''"] c
    obtain resp l' w' where
      "serve servers_up 8765 code_callback (start_listener, configured_world) = (Some resp, l', w')"
      "\<not> listening l'"
      "case exchangeCodeForTokens servers_up ''abc123'' (redirectUri 8765) configured_world of
              (Inl err, w1) \<Rightarrow>
                outcome l' = Rejected err \<and> status_code resp = 500 \<and> w' = w1
            | (Inr tokens, w1) \<Rightarrow>
                (case getConnections servers_up w1 of
                   (Inl err, w2) \<Rightarrow>
                     outcome l' = Rejected err \<and> status_code resp = 500 \<and> w' = w2
                 | (Inr conns, w2) \<Rightarrow>
                     outcome l' = Resolved \<and> status_code resp = 200)"
      by auto
    with login_sample connections_sample show ?thesis
      by (auto split: prod.splits sum.splits)
  qed
  have a4: "serve_all servers_up 8765 [code_callback, stray_request]
        (\<lparr>listening = False, outcome = Resolved\<rparr>, logged_in_world)
     = ([None, None], \<lparr>listening = False, outcome = Resolved\<rparr>, logged_in_world)"
    using callback_listener_one_shot [where ev = servers_up and port = 8765
      and w = logged_in_world and l = "\<lparr>listening = False, outcome = Resolved\<rparr>"
      and reqs = "[code_callback, stray_request]" and req = stray_request
      and e = "''access_denied''" and c = "''abc123''"]
    by simp
  from e s c a1 a2 a3 a4 show ?thesis by simp
qed

end
